theory Spec2Isabelle
  imports Main
begin

section \<open>Data of the standalone color picker\<close>

text \<open>
  The source is \<^verbatim>\<open>standaloneColorPickerWidget.ts\<close>: a controller, a content widget and a
  result computer. Values that the source only passes through are kept small: a color
  provider is a name, a color hover is its range and an opaque payload.
\<close>

record IRange =
  startLineNumber :: int
  startColumn :: int
  endLineNumber :: int
  endColumn :: int

record Position =
  lineNumber :: int
  column :: int

record Color =
  red :: int
  green :: int
  blue :: int
  alpha :: int

record IColorInformation =
  ci_range :: IRange
  ci_color :: Color

datatype DocumentColorProvider = Provider string

record ColorHover =
  ch_range :: IRange
  ch_payload :: nat

text \<open>What \<^verbatim>\<open>createColorHover\<close> resolves to when it is not null.\<close>

record CreateColorHoverResult =
  colorHover :: ColorHover
  foundInMap :: bool

text \<open>What \<^verbatim>\<open>computeAsync\<close> resolves to when it is not null.\<close>

record ComputeAsyncResult =
  result :: ColorHover
  foundInEditor :: bool

record StandaloneColorPickerResult =
  r_value :: ColorHover
  r_foundInMap :: bool

record InsertButton =
  textContent :: string

text \<open>
  The picker sub-widget that the participant hands to \<^verbatim>\<open>setColorPicker\<close>:
  \<^verbatim>\<open>body.enterButton\<close> and \<^verbatim>\<open>header.closeButton\<close> are both nullable.
\<close>

record ColorPickerWidget =
  enterButton :: "InsertButton option"
  closeButton :: bool

text \<open>
  The collaborators outside the file, taken as parameters: the provider list that
  \<^verbatim>\<open>colorProvider.ordered(textModel)\<close> returns, and the participant's
  \<^verbatim>\<open>createColorHover\<close> (the value its promise settles to) and
  \<^verbatim>\<open>renderHoverParts\<close> (the picker it passes to \<^verbatim>\<open>setColorPicker\<close>, if it does).
\<close>

record Env =
  ordered :: "DocumentColorProvider list"
  createColorHover :: "IColorInformation \<Rightarrow> DocumentColorProvider option \<Rightarrow> CreateColorHoverResult option"
  renderHoverParts :: "ColorHover \<Rightarrow> ColorPickerWidget option"

text \<open>
  The editor, as far as the file reads and writes it: whether a document is loaded, the
  primary cursor's view position (absent without a view model), the selection, the
  \<^verbatim>\<open>hover.above\<close> option, the content widgets added and not removed, and the
  subscribers of \<^verbatim>\<open>onDidChangeCursorPosition\<close>. Widgets are identified by a number
  (their index in the store of instances below).
\<close>

record ICodeEditor =
  hasModel :: bool
  viewCursor :: "Position option"
  selection :: "IRange option"
  hoverAbove :: bool
  contentWidgets :: "nat list"
  cursorListeners :: "nat list"

text \<open>Calls that leave the file, in the order they are made.\<close>

datatype effect =
    AddContentWidget nat
  | RemoveContentWidget nat
  | LayoutContentWidget nat
  | EditorFocus
  | BodyFocus nat
  | SetSelection IRange
  | CreateColorHover IColorInformation "DocumentColorProvider option"
  | RenderHoverParts nat ColorHover
  | UpdateEditorModel "ColorHover list"
  | Fire StandaloneColorPickerResult

section \<open>The event emitter\<close>

text \<open>
  Modelled from the spec: \<^verbatim>\<open>Emitter\<close> and \<^verbatim>\<open>Disposable\<close> (vs/base/common) are not
  in the file. A listener is called on every fire until its subscription is released;
  disposing the emitter releases all of them, and "after disposal, no further event is
  observable".
\<close>

record Emitter =
  listeners :: "nat list"
  em_disposed :: bool

definition Emitter_new :: Emitter where
  "Emitter_new = \<lparr>listeners = [], em_disposed = False\<rparr>"

definition Emitter_event :: "nat \<Rightarrow> Emitter \<Rightarrow> Emitter" where
  "Emitter_event l em = (if em_disposed em then em else em\<lparr>listeners := listeners em @ [l]\<rparr>)"

definition Emitter_release :: "nat \<Rightarrow> Emitter \<Rightarrow> Emitter" where
  "Emitter_release l em = em\<lparr>listeners := removeAll l (listeners em)\<rparr>"

definition Emitter_fire :: "Emitter \<Rightarrow> nat list" where
  "Emitter_fire em = (if em_disposed em then [] else listeners em)"

definition Emitter_dispose :: "Emitter \<Rightarrow> Emitter" where
  "Emitter_dispose em = \<lparr>listeners = [], em_disposed = True\<rparr>"

section \<open>StandaloneColorPickerComputer\<close>

text \<open>
  \<^verbatim>\<open>_range\<close> is typed \<^verbatim>\<open>IRange\<close>, and \<^verbatim>\<open>start\<close> tests it against null: the field is
  an option.
\<close>

record StandaloneColorPickerComputer =
  c_range :: "IRange option"
  onResult :: Emitter

text \<open>\<^verbatim>\<open>providers[0]\<close>: undefined on an empty array.\<close>

definition first_provider :: "DocumentColorProvider list \<Rightarrow> DocumentColorProvider option" where
  "first_provider providers = (case providers of [] \<Rightarrow> None | p # _ \<Rightarrow> Some p)"

text \<open>
  \<^verbatim>\<open>computeAsync\<close>: the calls it makes, and the value its promise settles to
  (\<open>None\<close> for null).
\<close>

definition computeAsync ::
  "Env \<Rightarrow> ICodeEditor \<Rightarrow> IRange \<Rightarrow> effect list \<times> ComputeAsyncResult option" where
  "computeAsync env ed rng =
     (if \<not> hasModel ed then ([], None)
      else
        let colorInfo = \<lparr>ci_range = rng, ci_color = \<lparr>red = 0, green = 0, blue = 0, alpha = 1\<rparr>\<rparr>;
            providers = rev (ordered env);
            createColorHoverResult = createColorHover env colorInfo (first_provider providers)
        in ([CreateColorHover colorInfo (first_provider providers)],
            case createColorHoverResult of
              None \<Rightarrow> None
            | Some r \<Rightarrow> Some \<lparr>result = colorHover r, foundInEditor = foundInMap r\<rparr>))"

text \<open>
  \<^verbatim>\<open>start\<close> up to its \<^verbatim>\<open>await\<close>. \<open>None\<close>: the range is null and \<^verbatim>\<open>start\<close> has
  returned. \<open>Some x\<close>: \<^verbatim>\<open>start\<close> is suspended, and \<open>x\<close> is what \<^verbatim>\<open>computeAsync\<close>
  settles to.
\<close>

definition start_await ::
  "Env \<Rightarrow> ICodeEditor \<Rightarrow> StandaloneColorPickerComputer
    \<Rightarrow> effect list \<times> ComputeAsyncResult option option" where
  "start_await env ed c =
     (case c_range c of
        None \<Rightarrow> ([], None)
      | Some rng \<Rightarrow> (fst (computeAsync env ed rng), Some (snd (computeAsync env ed rng))))"

text \<open>
  \<^verbatim>\<open>start\<close> after its \<^verbatim>\<open>await\<close>: the calls it makes, and the listeners that are
  called with the result.
\<close>

definition start_resume ::
  "StandaloneColorPickerComputer \<Rightarrow> ComputeAsyncResult option
    \<Rightarrow> effect list \<times> (nat \<times> StandaloneColorPickerResult) list" where
  "start_resume c computeAsyncResult =
     (case computeAsyncResult of
        None \<Rightarrow> ([], [])
      | Some x \<Rightarrow>
          let r = \<lparr>r_value = result x, r_foundInMap = foundInEditor x\<rparr>
          in ([Fire r], map (\<lambda>l. (l, r)) (Emitter_fire (onResult c))))"

text \<open>\<^verbatim>\<open>start\<close> run to its end, with nothing in between.\<close>

definition start ::
  "Env \<Rightarrow> ICodeEditor \<Rightarrow> StandaloneColorPickerComputer
    \<Rightarrow> effect list \<times> (nat \<times> StandaloneColorPickerResult) list" where
  "start env ed c =
     (case snd (start_await env ed c) of
        None \<Rightarrow> (fst (start_await env ed c), [])
      | Some x \<Rightarrow>
          (fst (start_await env ed c) @ fst (start_resume c x), snd (start_resume c x)))"

definition Computer_dispose :: "StandaloneColorPickerComputer \<Rightarrow> StandaloneColorPickerComputer" where
  "Computer_dispose c = c\<lparr>onResult := Emitter_dispose (onResult c)\<rparr>"

text \<open>
  A computer under its clients: \<^verbatim>\<open>start()\<close> calls, their continuations (oldest
  first), subscriptions to \<^verbatim>\<open>onResult\<close>, and \<^verbatim>\<open>dispose()\<close>.
\<close>

datatype computer_op = Start | Resume | Subscribe nat | Dispose

record computer_state =
  cs_computer :: StandaloneColorPickerComputer
  cs_awaiting :: "ComputeAsyncResult option list"
  cs_log :: "effect list"
  cs_delivered :: "(nat \<times> StandaloneColorPickerResult) list"

definition computer_init :: "StandaloneColorPickerComputer \<Rightarrow> computer_state" where
  "computer_init c = \<lparr>cs_computer = c, cs_awaiting = [], cs_log = [], cs_delivered = []\<rparr>"

fun computer_step :: "Env \<Rightarrow> ICodeEditor \<Rightarrow> computer_op \<Rightarrow> computer_state \<Rightarrow> computer_state" where
  "computer_step env ed Start s =
     (case snd (start_await env ed (cs_computer s)) of
        None \<Rightarrow> s\<lparr>cs_log := cs_log s @ fst (start_await env ed (cs_computer s))\<rparr>
      | Some x \<Rightarrow> s\<lparr>cs_log := cs_log s @ fst (start_await env ed (cs_computer s)),
                    cs_awaiting := cs_awaiting s @ [x]\<rparr>)"
| "computer_step env ed Resume s =
     (case cs_awaiting s of
        [] \<Rightarrow> s
      | x # rest \<Rightarrow>
          s\<lparr>cs_awaiting := rest,
            cs_log := cs_log s @ fst (start_resume (cs_computer s) x),
            cs_delivered := cs_delivered s @ snd (start_resume (cs_computer s) x)\<rparr>)"
| "computer_step env ed (Subscribe l) s =
     s\<lparr>cs_computer := (cs_computer s)\<lparr>onResult := Emitter_event l (onResult (cs_computer s))\<rparr>\<rparr>"
| "computer_step env ed Dispose s =
     s\<lparr>cs_computer := Computer_dispose (cs_computer s)\<rparr>"

definition computer_run ::
  "Env \<Rightarrow> ICodeEditor \<Rightarrow> computer_op list \<Rightarrow> computer_state \<Rightarrow> computer_state" where
  "computer_run env ed ops s = fold (computer_step env ed) ops s"

fun is_Fire :: "effect \<Rightarrow> bool" where
  "is_Fire (Fire r) = True"
| "is_Fire e = False"

fun is_CreateColorHover :: "effect \<Rightarrow> bool" where
  "is_CreateColorHover (CreateColorHover ci p) = True"
| "is_CreateColorHover e = False"

section \<open>StandaloneColorPickerWidget\<close>

text \<open>
  An instance: the fields of the class, the computer it owns, the continuation of the
  computer's \<^verbatim>\<open>start()\<close> while it is suspended (\<open>w_awaiting\<close>), whether
  \<^verbatim>\<open>_disposables\<close> has been disposed, and the picker that \<^verbatim>\<open>_render\<close> put into the
  body.
\<close>

record StandaloneColorPickerWidget =
  w_position :: "Position option"
  w_selection :: "IRange option"
  w_computer :: StandaloneColorPickerComputer
  w_awaiting :: "ComputeAsyncResult option option"
  w_disposed :: bool
  colorHoverData :: "ColorHover option"
  selectionSetInEditor :: bool
  colorPickerWidget :: "ColorPickerWidget option"

text \<open>
  The editor, the two context keys, the controller's reference to its widget, every
  widget instance constructed so far (an instance is its index) and the calls made.
\<close>

record World =
  editor :: ICodeEditor
  standaloneColorPickerVisible :: bool
  standaloneColorPickerFocused :: bool
  standaloneColorPickerWidget :: "nat option"
  widgets :: "StandaloneColorPickerWidget list"
  log :: "effect list"

definition World_init :: "ICodeEditor \<Rightarrow> World" where
  "World_init ed =
     \<lparr>editor = ed\<lparr>contentWidgets := [], cursorListeners := []\<rparr>,
      standaloneColorPickerVisible = False,
      standaloneColorPickerFocused = False,
      standaloneColorPickerWidget = None,
      widgets = [],
      log = []\<rparr>"

definition live :: "nat \<Rightarrow> World \<Rightarrow> bool" where
  "live i W = (i < length (widgets W) \<and> \<not> w_disposed (widgets W ! i))"

definition emit :: "effect list \<Rightarrow> World \<Rightarrow> World" where
  "emit es W = W\<lparr>log := log W @ es\<rparr>"

definition update_widget ::
  "nat \<Rightarrow> (StandaloneColorPickerWidget \<Rightarrow> StandaloneColorPickerWidget) \<Rightarrow> World \<Rightarrow> World" where
  "update_widget i f W = W\<lparr>widgets := (widgets W)[i := f (widgets W ! i)]\<rparr>"

text \<open>The constructor's \<^verbatim>\<open>selection\<close>: the four coordinates, or the zero range.\<close>

definition selection_snapshot :: "IRange option \<Rightarrow> IRange" where
  "selection_snapshot sel =
     (case sel of
        Some s \<Rightarrow> \<lparr>startLineNumber = startLineNumber s, startColumn = startColumn s,
                   endLineNumber = endLineNumber s, endColumn = endColumn s\<rparr>
      | None \<Rightarrow> \<lparr>startLineNumber = 0, startColumn = 0, endLineNumber = 0, endColumn = 0\<rparr>)"

definition Computer_new :: "IRange option \<Rightarrow> StandaloneColorPickerComputer" where
  "Computer_new rng = \<lparr>c_range = rng, onResult = Emitter_new\<rparr>"

text \<open>
  The computer the widget's constructor makes, with the widget \<open>i\<close> subscribed to
  \<^verbatim>\<open>onResult\<close>.
\<close>

definition Widget_computer :: "nat \<Rightarrow> ICodeEditor \<Rightarrow> StandaloneColorPickerComputer" where
  "Widget_computer i ed =
     (let c = Computer_new (Some (selection_snapshot (selection ed)))
      in c\<lparr>onResult := Emitter_event i (onResult c)\<rparr>)"

text \<open>
  The constructor. The new instance is \<open>length (widgets W)\<close>. Its last statement calls
  \<^verbatim>\<open>start()\<close>, which runs up to its \<^verbatim>\<open>await\<close>.
\<close>

definition Widget_new :: "Env \<Rightarrow> World \<Rightarrow> World" where
  "Widget_new env W =
     (let i = length (widgets W);
          computer = Widget_computer i (editor W);
          w = \<lparr>w_position = viewCursor (editor W),
               w_selection = selection (editor W),
               w_computer = computer,
               w_awaiting = snd (start_await env (editor W) computer),
               w_disposed = False,
               colorHoverData = None,
               selectionSetInEditor = False,
               colorPickerWidget = None\<rparr>
      in W\<lparr>editor := (editor W)\<lparr>cursorListeners := cursorListeners (editor W) @ [i]\<rparr>,
           widgets := widgets W @ [w],
           log := log W @ fst (start_await env (editor W) computer)\<rparr>)"

definition Widget_updateEditor :: "nat \<Rightarrow> World \<Rightarrow> World" where
  "Widget_updateEditor i W =
     (if i < length (widgets W) then
        (case colorHoverData (widgets W ! i) of
           Some d \<Rightarrow> emit [UpdateEditorModel [d]] W
         | None \<Rightarrow> W)
      else W)"

text \<open>\<^verbatim>\<open>_disposables.dispose()\<close>: every subscription of the widget is released.\<close>

definition Widget_dispose :: "nat \<Rightarrow> World \<Rightarrow> World" where
  "Widget_dispose i W =
     update_widget i
       (\<lambda>w. w\<lparr>w_disposed := True,
              w_computer := (w_computer w)\<lparr>onResult := Emitter_release i (onResult (w_computer w))\<rparr>\<rparr>)
       (W\<lparr>editor := (editor W)\<lparr>cursorListeners := removeAll i (cursorListeners (editor W))\<rparr>\<rparr>)"

definition Widget_hide :: "nat \<Rightarrow> World \<Rightarrow> World" where
  "Widget_hide i W =
     (let W1 = emit [RemoveContentWidget i]
                 (W\<lparr>editor := (editor W)\<lparr>contentWidgets := removeAll i (contentWidgets (editor W))\<rparr>\<rparr>);
          W2 = Widget_dispose i W1;
          W3 = W2\<lparr>standaloneColorPickerVisible := False, standaloneColorPickerFocused := False\<rparr>
      in emit [EditorFocus] W3)"

definition Widget_focus :: "nat \<Rightarrow> World \<Rightarrow> World" where
  "Widget_focus i W = emit [BodyFocus i] W"

text \<open>The listener the constructor gives to \<^verbatim>\<open>onDidChangeCursorPosition\<close>.\<close>

definition cursor_listener :: "nat \<Rightarrow> World \<Rightarrow> World" where
  "cursor_listener i W =
     (if i \<in> set (cursorListeners (editor W)) \<and> i < length (widgets W) then
        (if \<not> selectionSetInEditor (widgets W ! i) then Widget_hide i W
         else update_widget i (\<lambda>w. w\<lparr>selectionSetInEditor := False\<rparr>) W)
      else W)"

definition fire_cursorPosition :: "World \<Rightarrow> World" where
  "fire_cursorPosition W = fold cursor_listener (cursorListeners (editor W)) W"

text \<open>
  Modelled from the spec: the editor's \<^verbatim>\<open>setSelection\<close> is not in the file. It stores the
  selection and, when the selection changes, tells the cursor-position listeners (the
  spec's "selection change" that "must not trigger the cursor-move auto-hide").
\<close>

definition editor_setSelection :: "IRange \<Rightarrow> World \<Rightarrow> World" where
  "editor_setSelection rng W =
     (let W1 = emit [SetSelection rng] (W\<lparr>editor := (editor W)\<lparr>selection := Some rng\<rparr>\<rparr>)
      in if selection (editor W) \<noteq> Some rng then fire_cursorPosition W1 else W1)"

definition relabel :: "ColorPickerWidget \<Rightarrow> ColorPickerWidget" where
  "relabel cpw =
     cpw\<lparr>enterButton := (case enterButton cpw of
                            None \<Rightarrow> None
                          | Some b \<Rightarrow> Some (b\<lparr>textContent := ''Replace''\<rparr>))\<rparr>"

text \<open>
  \<^verbatim>\<open>_render\<close>. The styles of the body (two CSS lengths) are left out; the handlers put
  on the two buttons are the events \<open>EnterClicked\<close> and \<open>CloseClicked\<close> below.
\<close>

definition Widget_render :: "Env \<Rightarrow> nat \<Rightarrow> ColorHover \<Rightarrow> bool \<Rightarrow> World \<Rightarrow> World" where
  "Widget_render env i d foundIn W =
     (let W1 = emit [RenderHoverParts i d] (update_widget i (\<lambda>w. w\<lparr>colorHoverData := Some d\<rparr>) W)
      in case renderHoverParts env d of
           None \<Rightarrow> W1
         | Some cpw \<Rightarrow>
             (let W2 = update_widget i (\<lambda>w. w\<lparr>colorPickerWidget := Some cpw\<rparr>) W1;
                  W3 = (if foundIn then
                          editor_setSelection (ch_range d)
                            (update_widget i
                               (\<lambda>w. w\<lparr>colorPickerWidget := Some (relabel cpw),
                                      selectionSetInEditor := True\<rparr>) W2)
                        else W2)
              in emit [LayoutContentWidget i] W3))"

datatype ContentWidgetPositionPreference = EXACT | ABOVE | BELOW

datatype PositionAffinity =
  AffinityLeft | AffinityRight | AffinityNone | LeftOfInjectedText | RightOfInjectedText

record IContentWidgetPosition =
  position :: Position
  secondaryPosition :: Position
  preference :: "ContentWidgetPositionPreference list"
  positionAffinity :: PositionAffinity

definition Widget_getPosition ::
  "ICodeEditor \<Rightarrow> StandaloneColorPickerWidget \<Rightarrow> IContentWidgetPosition option" where
  "Widget_getPosition ed w =
     (case w_position w of
        None \<Rightarrow> None
      | Some p \<Rightarrow>
          Some \<lparr>position = p,
                secondaryPosition = p,
                preference = (if hoverAbove ed then [ABOVE, BELOW] else [BELOW, ABOVE]),
                positionAffinity = AffinityNone\<rparr>)"

section \<open>StandaloneColorPickerController\<close>

definition Controller_showOrFocus :: "Env \<Rightarrow> World \<Rightarrow> World" where
  "Controller_showOrFocus env W =
     (if \<not> hasModel (editor W) then W
      else if \<not> standaloneColorPickerVisible W then
        (let W1 = W\<lparr>standaloneColorPickerVisible := True\<rparr>;
             i = length (widgets W1);
             W2 = (Widget_new env W1)\<lparr>standaloneColorPickerWidget := Some i\<rparr>
         in emit [AddContentWidget i]
              (W2\<lparr>editor := (editor W2)\<lparr>contentWidgets := contentWidgets (editor W2) @ [i]\<rparr>\<rparr>))
      else if \<not> standaloneColorPickerFocused W then
        (let W1 = W\<lparr>standaloneColorPickerFocused := True\<rparr>
         in case standaloneColorPickerWidget W1 of
              None \<Rightarrow> W1
            | Some i \<Rightarrow> Widget_focus i W1)
      else W)"

definition Controller_hide :: "World \<Rightarrow> World" where
  "Controller_hide W =
     (let W1 = W\<lparr>standaloneColorPickerFocused := False, standaloneColorPickerVisible := False\<rparr>;
          W2 = (case standaloneColorPickerWidget W1 of
                  None \<Rightarrow> W1
                | Some i \<Rightarrow> Widget_hide i W1)
      in emit [EditorFocus] W2)"

definition Controller_insertColor :: "World \<Rightarrow> World" where
  "Controller_insertColor W =
     Controller_hide
       (case standaloneColorPickerWidget W of
          None \<Rightarrow> W
        | Some i \<Rightarrow> Widget_updateEditor i W)"

section \<open>What can happen to an editor with the controller\<close>

text \<open>
  The three commands; the user moving the cursor or the document being loaded or
  unloaded; and the callbacks into a widget: the focus tracker, the picker's buttons,
  the participant's \<^verbatim>\<open>context.hide\<close>, and the continuation of the computer's
  \<^verbatim>\<open>start()\<close>. The focus tracker, the buttons and the participant's rendering belong
  to the widget's disposal group, so their callbacks run only on a widget that is not
  disposed.
\<close>

datatype event =
    ShowOrFocus
  | Hide
  | InsertColor
  | CursorMoved "Position option" "IRange option"
  | ModelChanged bool
  | DidBlur nat
  | DidFocus nat
  | EnterClicked nat
  | CloseClicked nat
  | ContextHide nat
  | Resumed nat

definition has_enterButton :: "StandaloneColorPickerWidget \<Rightarrow> bool" where
  "has_enterButton w =
     (case colorPickerWidget w of None \<Rightarrow> False | Some cpw \<Rightarrow> enterButton cpw \<noteq> None)"

definition has_closeButton :: "StandaloneColorPickerWidget \<Rightarrow> bool" where
  "has_closeButton w =
     (case colorPickerWidget w of None \<Rightarrow> False | Some cpw \<Rightarrow> closeButton cpw)"

definition deliver :: "Env \<Rightarrow> nat \<times> StandaloneColorPickerResult \<Rightarrow> World \<Rightarrow> World" where
  "deliver env lr W = Widget_render env (fst lr) (r_value (snd lr)) (r_foundInMap (snd lr)) W"

definition resumed :: "Env \<Rightarrow> nat \<Rightarrow> World \<Rightarrow> World" where
  "resumed env i W =
     (if i < length (widgets W) then
        (case w_awaiting (widgets W ! i) of
           None \<Rightarrow> W
         | Some x \<Rightarrow>
             fold (deliver env) (snd (start_resume (w_computer (widgets W ! i)) x))
               (emit (fst (start_resume (w_computer (widgets W ! i)) x))
                  (update_widget i (\<lambda>w. w\<lparr>w_awaiting := None\<rparr>) W)))
      else W)"

fun step :: "Env \<Rightarrow> event \<Rightarrow> World \<Rightarrow> World" where
  "step env ShowOrFocus W = Controller_showOrFocus env W"
| "step env Hide W = Controller_hide W"
| "step env InsertColor W = Controller_insertColor W"
| "step env (CursorMoved p s) W =
     fire_cursorPosition (W\<lparr>editor := (editor W)\<lparr>viewCursor := p, selection := s\<rparr>\<rparr>)"
| "step env (ModelChanged b) W = W\<lparr>editor := (editor W)\<lparr>hasModel := b\<rparr>\<rparr>"
| "step env (DidBlur i) W = (if live i W then Widget_hide i W else W)"
| "step env (DidFocus i) W = (if live i W then Widget_focus i W else W)"
| "step env (EnterClicked i) W =
     (if live i W \<and> has_enterButton (widgets W ! i)
      then Widget_hide i (Widget_updateEditor i W) else W)"
| "step env (CloseClicked i) W =
     (if live i W \<and> has_closeButton (widgets W ! i) then Widget_hide i W else W)"
| "step env (ContextHide i) W =
     (if live i W \<and> colorHoverData (widgets W ! i) \<noteq> None then Widget_hide i W else W)"
| "step env (Resumed i) W = resumed env i W"

definition run :: "Env \<Rightarrow> event list \<Rightarrow> World \<Rightarrow> World" where
  "run env evs W = fold (step env) evs W"

section \<open>Invariant and sample values\<close>

text \<open>
  What holds of every world the events can produce: the widget the controller refers to is
  the only one that is not disposed, and it is so exactly while the visible key is set;
  the editor's widget layer and cursor listeners hold that widget and no other; each
  computer's \<^verbatim>\<open>onResult\<close> has its widget's listener until the widget is disposed, and
  its range is the snapshot of the selection the widget was constructed with.
\<close>

definition picker_inv :: "World \<Rightarrow> bool" where
  "picker_inv W =
     ((standaloneColorPickerVisible W \<longrightarrow>
         (\<exists>i. standaloneColorPickerWidget W = Some i \<and> live i W \<and>
              contentWidgets (editor W) = [i] \<and> cursorListeners (editor W) = [i])) \<and>
      (\<not> standaloneColorPickerVisible W \<longrightarrow>
         contentWidgets (editor W) = [] \<and> cursorListeners (editor W) = []) \<and>
      (\<forall>j. live j W \<longrightarrow> standaloneColorPickerVisible W \<and> standaloneColorPickerWidget W = Some j) \<and>
      (standaloneColorPickerFocused W \<longrightarrow> standaloneColorPickerVisible W) \<and>
      (\<forall>j < length (widgets W).
          Emitter_fire (onResult (w_computer (widgets W ! j)))
            = (if w_disposed (widgets W ! j) then [] else [j]) \<and>
          c_range (w_computer (widgets W ! j))
            = Some (selection_snapshot (w_selection (widgets W ! j)))) \<and>
      (\<forall>j. standaloneColorPickerWidget W = Some j \<longrightarrow> j < length (widgets W)))"

text \<open>
  The color-info \<^verbatim>\<open>computeAsync\<close> makes for a range, and the constructor's default
  range.
\<close>

definition placeholder :: "IRange \<Rightarrow> IColorInformation" where
  "placeholder rng = \<lparr>ci_range = rng, ci_color = \<lparr>red = 0, green = 0, blue = 0, alpha = 1\<rparr>\<rparr>"

definition zero_range :: IRange where
  "zero_range = \<lparr>startLineNumber = 0, startColumn = 0, endLineNumber = 0, endColumn = 0\<rparr>"

text \<open>
  Concrete values: a range, a picker with both buttons, a participant that answers only
  for provider \<open>C\<close>, one that never answers, an editor with a document and one
  without, and the world after one \<^verbatim>\<open>showOrFocus()\<close>.
\<close>

definition sample_range :: IRange where
  "sample_range = \<lparr>startLineNumber = 1, startColumn = 5, endLineNumber = 1, endColumn = 12\<rparr>"

definition sample_picker :: ColorPickerWidget where
  "sample_picker = \<lparr>enterButton = Some \<lparr>textContent = ''Insert''\<rparr>, closeButton = True\<rparr>"

definition sample_env :: Env where
  "sample_env =
     \<lparr>ordered = [Provider ''A'', Provider ''B'', Provider ''C''],
      createColorHover = (\<lambda>ci p. if p = Some (Provider ''C'')
         then Some \<lparr>colorHover = \<lparr>ch_range = sample_range, ch_payload = 7\<rparr>, foundInMap = True\<rparr>
         else None),
      renderHoverParts = (\<lambda>d. Some sample_picker)\<rparr>"

definition silent_env :: Env where
  "silent_env =
     \<lparr>ordered = [Provider ''A''],
      createColorHover = (\<lambda>ci p. None),
      renderHoverParts = (\<lambda>d. None)\<rparr>"

definition sample_editor :: ICodeEditor where
  "sample_editor =
     \<lparr>hasModel = True,
      viewCursor = Some \<lparr>lineNumber = 1, column = 5\<rparr>,
      selection = Some \<lparr>startLineNumber = 1, startColumn = 5, endLineNumber = 1, endColumn = 5\<rparr>,
      hoverAbove = True,
      contentWidgets = [],
      cursorListeners = []\<rparr>"

definition empty_editor :: ICodeEditor where
  "empty_editor =
     \<lparr>hasModel = False,
      viewCursor = None,
      selection = None,
      hoverAbove = False,
      contentWidgets = [],
      cursorListeners = []\<rparr>"


definition shown_world :: World where
  "shown_world = Controller_showOrFocus sample_env (World_init sample_editor)"










text \<open>Counting the calls of a computer: emissions of \<^verbatim>\<open>onResult\<close> and lookups.\<close>

definition fires :: "computer_state \<Rightarrow> nat" where
  "fires s = length (filter is_Fire (cs_log s))"

definition lookups :: "computer_state \<Rightarrow> nat" where
  "lookups s = length (filter is_CreateColorHover (cs_log s))"


text \<open>
  The results a widget has received: the color hovers its \<^verbatim>\<open>_render\<close> was called
  with, oldest first.
\<close>

fun render_of :: "nat \<Rightarrow> effect \<Rightarrow> ColorHover option" where
  "render_of i (RenderHoverParts j d) = (if j = i then Some d else None)"
| "render_of i e = None"

definition received :: "nat \<Rightarrow> World \<Rightarrow> ColorHover list" where
  "received i W = List.map_filter (render_of i) (log W)"

text \<open>
  The stored color hover of every widget is the last result it received, and none if it
  received none.
\<close>

definition data_inv :: "World \<Rightarrow> bool" where
  "data_inv W =
     (\<forall>i. (i < length (widgets W) \<longrightarrow>
             colorHoverData (widgets W ! i)
               = (if received i W = [] then None else Some (last (received i W)))) \<and>
          (length (widgets W) \<le> i \<longrightarrow> received i W = []))"


text \<open>
  What the emissions depend on: the suspended \<^verbatim>\<open>start()\<close> of every widget, and the
  emissions made so far. Every \<^verbatim>\<open>start()\<close> is either still suspended or has fired at
  most once.
\<close>

definition starts_view :: "World \<Rightarrow> ComputeAsyncResult option option list \<times> effect list" where
  "starts_view W = (map w_awaiting (widgets W), filter is_Fire (log W))"

definition fire_inv :: "World \<Rightarrow> bool" where
  "fire_inv W =
     (length (filter is_Fire (log W)) + length (filter (\<lambda>a. a \<noteq> None) (map w_awaiting (widgets W)))
        \<le> length (widgets W))"


section \<open>Lemmas\<close>

lemma inv_same:
  assumes "picker_inv W"
    and "editor W' = editor W"
    and "standaloneColorPickerVisible W' = standaloneColorPickerVisible W"
    and "standaloneColorPickerWidget W' = standaloneColorPickerWidget W"
    and "widgets W' = widgets W"
    and "standaloneColorPickerFocused W' \<longrightarrow> standaloneColorPickerVisible W"
  shows "picker_inv W'"
  using assms(1,6) unfolding picker_inv_def live_def assms(2-5) by blast

lemma inv_init: "picker_inv (World_init ed)"
  by (simp add: picker_inv_def World_init_def live_def)

lemma inv_emit [simp]: "picker_inv (emit es W) = picker_inv W"
  by (simp add: picker_inv_def emit_def live_def)

lemma Widget_hide_flags:
  "Widget_hide i (W\<lparr>standaloneColorPickerFocused := a, standaloneColorPickerVisible := b\<rparr>) = Widget_hide i W"
  by (simp add: Widget_hide_def Widget_dispose_def update_widget_def emit_def Let_def)

lemma Widget_hide_fields:
  "standaloneColorPickerVisible (Widget_hide i W) = False"
  "standaloneColorPickerFocused (Widget_hide i W) = False"
  "standaloneColorPickerWidget (Widget_hide i W) = standaloneColorPickerWidget W"
  "contentWidgets (editor (Widget_hide i W)) = removeAll i (contentWidgets (editor W))"
  "cursorListeners (editor (Widget_hide i W)) = removeAll i (cursorListeners (editor W))"
  "hasModel (editor (Widget_hide i W)) = hasModel (editor W)"
  "selection (editor (Widget_hide i W)) = selection (editor W)"
  "viewCursor (editor (Widget_hide i W)) = viewCursor (editor W)"
  "hoverAbove (editor (Widget_hide i W)) = hoverAbove (editor W)"
  "length (widgets (Widget_hide i W)) = length (widgets W)"
  "log (Widget_hide i W) = log W @ [RemoveContentWidget i, EditorFocus]"
  by (simp_all add: Widget_hide_def Widget_dispose_def update_widget_def emit_def Let_def)

lemma Widget_hide_nth:
  assumes "j < length (widgets W)"
  shows "widgets (Widget_hide i W) ! j =
     (if j = i
      then (widgets W ! j)\<lparr>w_disposed := True,
             w_computer := (w_computer (widgets W ! j))
               \<lparr>onResult := Emitter_release i (onResult (w_computer (widgets W ! j)))\<rparr>\<rparr>
      else widgets W ! j)"
  using assms
  by (simp add: Widget_hide_def Widget_dispose_def update_widget_def emit_def Let_def nth_list_update)

lemma Widget_hide_widget:
  assumes "j < length (widgets W)"
  shows "w_disposed (widgets (Widget_hide i W) ! j) = (j = i \<or> w_disposed (widgets W ! j))"
    and "onResult (w_computer (widgets (Widget_hide i W) ! j)) =
           (if j = i then Emitter_release i (onResult (w_computer (widgets W ! j)))
            else onResult (w_computer (widgets W ! j)))"
    and "c_range (w_computer (widgets (Widget_hide i W) ! j)) = c_range (w_computer (widgets W ! j))"
    and "colorHoverData (widgets (Widget_hide i W) ! j) = colorHoverData (widgets W ! j)"
    and "colorPickerWidget (widgets (Widget_hide i W) ! j) = colorPickerWidget (widgets W ! j)"
    and "selectionSetInEditor (widgets (Widget_hide i W) ! j) = selectionSetInEditor (widgets W ! j)"
    and "w_awaiting (widgets (Widget_hide i W) ! j) = w_awaiting (widgets W ! j)"
    and "w_position (widgets (Widget_hide i W) ! j) = w_position (widgets W ! j)"
    and "w_selection (widgets (Widget_hide i W) ! j) = w_selection (widgets W ! j)"
  using assms by (simp_all add: Widget_hide_nth)

lemma live_Widget_hide: "live j (Widget_hide i W) = (live j W \<and> j \<noteq> i)"
  by (auto simp add: live_def Widget_hide_fields Widget_hide_widget)

lemma Emitter_fire_release: "Emitter_fire (Emitter_release i em) = removeAll i (Emitter_fire em)"
  by (simp add: Emitter_fire_def Emitter_release_def)

lemma inv_liveD: "picker_inv W \<Longrightarrow> live j W \<Longrightarrow> standaloneColorPickerVisible W \<and> standaloneColorPickerWidget W = Some j"
  by (simp add: picker_inv_def)

lemma inv_visibleD:
  "picker_inv W \<Longrightarrow> standaloneColorPickerVisible W \<Longrightarrow>
     \<exists>i. standaloneColorPickerWidget W = Some i \<and> live i W \<and>
         contentWidgets (editor W) = [i] \<and> cursorListeners (editor W) = [i]"
  by (simp add: picker_inv_def)

lemma inv_hiddenD:
  "picker_inv W \<Longrightarrow> \<not> standaloneColorPickerVisible W \<Longrightarrow>
     contentWidgets (editor W) = [] \<and> cursorListeners (editor W) = []"
  by (simp add: picker_inv_def)

lemma inv_Widget_hide:
  assumes I: "picker_inv W" and L: "live i W \<or> \<not> standaloneColorPickerVisible W"
  shows "picker_inv (Widget_hide i W)"
proof -
  have nolive: "\<not> live j (Widget_hide i W)" for j
  proof
    assume "live j (Widget_hide i W)"
    then have j: "live j W" "j \<noteq> i" by (simp_all add: live_Widget_hide)
    from inv_liveD [OF I j(1)] have v: "standaloneColorPickerVisible W"
      and c: "standaloneColorPickerWidget W = Some j" by simp_all
    from L v have "live i W" by simp
    from inv_liveD [OF I this] have "standaloneColorPickerWidget W = Some i" by simp
    with c j(2) show False by simp
  qed
  have lists: "contentWidgets (editor (Widget_hide i W)) = [] \<and>
      cursorListeners (editor (Widget_hide i W)) = []"
  proof (cases "standaloneColorPickerVisible W")
    case True
    from inv_visibleD [OF I True] obtain k where k: "standaloneColorPickerWidget W = Some k"
      "contentWidgets (editor W) = [k]" "cursorListeners (editor W) = [k]" by blast
    from L True have "live i W" by simp
    from inv_liveD [OF I this] k(1) have "k = i" by simp
    with k show ?thesis by (simp add: Widget_hide_fields)
  next
    case False
    from inv_hiddenD [OF I False] show ?thesis by (simp add: Widget_hide_fields)
  qed
  have em: "Emitter_fire (onResult (w_computer (widgets (Widget_hide i W) ! j)))
            = (if w_disposed (widgets (Widget_hide i W) ! j) then [] else [j]) \<and>
          c_range (w_computer (widgets (Widget_hide i W) ! j))
            = Some (selection_snapshot (w_selection (widgets (Widget_hide i W) ! j)))"
    if j: "j < length (widgets W)" for j
  proof -
    from I j have old: "Emitter_fire (onResult (w_computer (widgets W ! j)))
        = (if w_disposed (widgets W ! j) then [] else [j])"
      "c_range (w_computer (widgets W ! j)) = Some (selection_snapshot (w_selection (widgets W ! j)))"
      by (simp_all add: picker_inv_def)
    show ?thesis
    proof (cases "j = i")
      case True
      with j old show ?thesis
        by (simp add: Widget_hide_widget Emitter_fire_release)
    next
      case False
      with j old show ?thesis
        by (simp add: Widget_hide_widget)
    qed
  qed
  have ct: "\<forall>j. standaloneColorPickerWidget (Widget_hide i W) = Some j \<longrightarrow>
               j < length (widgets (Widget_hide i W))"
    using I by (simp add: Widget_hide_fields picker_inv_def)
  show ?thesis
    unfolding picker_inv_def using nolive lists em ct
    by (simp add: Widget_hide_fields del: split_paired_All)
qed


lemma inv_Controller_hide:
  assumes I: "picker_inv W"
  shows "picker_inv (Controller_hide W)"
proof (cases "standaloneColorPickerWidget W")
  case None
  have nolive: "\<not> live j W" for j
    using inv_liveD [OF I, of j] None by auto
  have "\<not> standaloneColorPickerVisible W"
    using inv_visibleD [OF I] None by auto
  with I nolive None
  have "picker_inv (W\<lparr>standaloneColorPickerFocused := False, standaloneColorPickerVisible := False\<rparr>)"
    by (simp add: picker_inv_def live_def)
  with None show ?thesis
    by (simp add: Controller_hide_def)
next
  case (Some i)
  have "live i W \<or> \<not> standaloneColorPickerVisible W"
    using inv_visibleD [OF I] Some by auto
  with I have "picker_inv (Widget_hide i W)" by (rule inv_Widget_hide)
  with Some show ?thesis
    by (simp add: Controller_hide_def Widget_hide_flags)
qed

lemma live_update_widget:
  assumes "\<And>w. w_disposed (f w) = w_disposed w"
  shows "live j (update_widget i f W) = live j W"
proof (cases "j = i")
  case True
  then show ?thesis using assms by (simp add: live_def update_widget_def cong: conj_cong)
next
  case False
  then show ?thesis by (simp add: live_def update_widget_def)
qed

lemma inv_update_widget:
  assumes "picker_inv W"
    and "\<And>w. w_disposed (f w) = w_disposed w"
    and "\<And>w. w_computer (f w) = w_computer w"
    and "\<And>w. w_selection (f w) = w_selection w"
  shows "picker_inv (update_widget i f W)"
proof -
  have n: "widgets (update_widget i f W) ! j = (if j = i then f (widgets W ! j) else widgets W ! j)"
    if "j < length (widgets W)" for j
    using that by (simp add: update_widget_def nth_list_update)
  have l: "live j (update_widget i f W) = live j W" for j
    using assms(2) by (rule live_update_widget)
  have r: "editor (update_widget i f W) = editor W"
    "standaloneColorPickerVisible (update_widget i f W) = standaloneColorPickerVisible W"
    "standaloneColorPickerFocused (update_widget i f W) = standaloneColorPickerFocused W"
    "standaloneColorPickerWidget (update_widget i f W) = standaloneColorPickerWidget W"
    "length (widgets (update_widget i f W)) = length (widgets W)"
    by (simp_all add: update_widget_def)
  have e: "Emitter_fire (onResult (w_computer (widgets (update_widget i f W) ! j)))
            = (if w_disposed (widgets (update_widget i f W) ! j) then [] else [j]) \<and>
          c_range (w_computer (widgets (update_widget i f W) ! j))
            = Some (selection_snapshot (w_selection (widgets (update_widget i f W) ! j)))"
    if j: "j < length (widgets W)" for j
  proof -
    from assms(1) j have old: "Emitter_fire (onResult (w_computer (widgets W ! j)))
        = (if w_disposed (widgets W ! j) then [] else [j])"
      "c_range (w_computer (widgets W ! j)) = Some (selection_snapshot (w_selection (widgets W ! j)))"
      by (simp_all add: picker_inv_def)
    show ?thesis
    proof (cases "j = i")
      case True
      with j old assms(2,3,4) show ?thesis by (simp add: n)
    next
      case False
      with j old show ?thesis by (simp add: n)
    qed
  qed
  from assms(1) e show ?thesis
    unfolding picker_inv_def l r by simp
qed

lemma inv_Widget_updateEditor: "picker_inv W \<Longrightarrow> picker_inv (Widget_updateEditor i W)"
  by (simp add: Widget_updateEditor_def split: option.splits)

lemma inv_Controller_insertColor: "picker_inv W \<Longrightarrow> picker_inv (Controller_insertColor W)"
  by (simp add: Controller_insertColor_def inv_Controller_hide inv_Widget_updateEditor
        split: option.splits)

lemma inv_listenerD:
  assumes I: "picker_inv W" and i: "i \<in> set (cursorListeners (editor W))"
  shows "live i W"
proof (cases "standaloneColorPickerVisible W")
  case True
  from inv_visibleD [OF I True] i show ?thesis by auto
next
  case False
  from inv_hiddenD [OF I False] i show ?thesis by simp
qed

lemma inv_cursor_listener:
  assumes I: "picker_inv W"
  shows "picker_inv (cursor_listener i W)"
proof (cases "i \<in> set (cursorListeners (editor W)) \<and> i < length (widgets W)")
  case False
  then have "cursor_listener i W = W" by (auto simp add: cursor_listener_def)
  with I show ?thesis by simp
next
  case True
  then have "live i W" using inv_listenerD [OF I] by simp
  with I True show ?thesis
    by (simp add: cursor_listener_def inv_Widget_hide inv_update_widget)
qed

lemma inv_fold_cursor: "picker_inv W \<Longrightarrow> picker_inv (fold cursor_listener xs W)"
  by (induction xs arbitrary: W) (simp_all add: inv_cursor_listener)

lemma inv_fire_cursorPosition: "picker_inv W \<Longrightarrow> picker_inv (fire_cursorPosition W)"
  by (simp add: fire_cursorPosition_def inv_fold_cursor)

lemma inv_editor_fields:
  "picker_inv (W\<lparr>editor := (editor W)\<lparr>viewCursor := p, selection := s\<rparr>\<rparr>) = picker_inv W"
  "picker_inv (W\<lparr>editor := (editor W)\<lparr>selection := s\<rparr>\<rparr>) = picker_inv W"
  "picker_inv (W\<lparr>editor := (editor W)\<lparr>hasModel := b\<rparr>\<rparr>) = picker_inv W"
  by (simp_all add: picker_inv_def live_def)

lemma inv_editor_setSelection: "picker_inv W \<Longrightarrow> picker_inv (editor_setSelection rng W)"
  by (simp add: editor_setSelection_def Let_def inv_fire_cursorPosition inv_editor_fields)

lemma inv_Widget_render: "picker_inv W \<Longrightarrow> picker_inv (Widget_render env i d f W)"
  by (simp add: Widget_render_def Let_def inv_editor_setSelection inv_update_widget
        split: option.splits)

lemma inv_fold_deliver: "picker_inv W \<Longrightarrow> picker_inv (fold (deliver env) ds W)"
  by (induction ds arbitrary: W) (simp_all add: deliver_def inv_Widget_render)

lemma inv_resumed: "picker_inv W \<Longrightarrow> picker_inv (resumed env i W)"
  by (simp add: resumed_def inv_fold_deliver inv_update_widget split: option.splits)


lemma show_create_fields:
  assumes "hasModel (editor W)" and "\<not> standaloneColorPickerVisible W"
  shows "standaloneColorPickerVisible (Controller_showOrFocus env W)"
    and "standaloneColorPickerFocused (Controller_showOrFocus env W) = standaloneColorPickerFocused W"
    and "standaloneColorPickerWidget (Controller_showOrFocus env W) = Some (length (widgets W))"
    and "contentWidgets (editor (Controller_showOrFocus env W))
           = contentWidgets (editor W) @ [length (widgets W)]"
    and "cursorListeners (editor (Controller_showOrFocus env W))
           = cursorListeners (editor W) @ [length (widgets W)]"
    and "length (widgets (Controller_showOrFocus env W)) = Suc (length (widgets W))"
    and "take (length (widgets W)) (widgets (Controller_showOrFocus env W)) = widgets W"
    and "w_disposed (widgets (Controller_showOrFocus env W) ! length (widgets W)) = False"
    and "w_computer (widgets (Controller_showOrFocus env W) ! length (widgets W))
           = Widget_computer (length (widgets W)) (editor W)"
    and "colorHoverData (widgets (Controller_showOrFocus env W) ! length (widgets W)) = None"
    and "w_position (widgets (Controller_showOrFocus env W) ! length (widgets W)) = viewCursor (editor W)"
    and "w_selection (widgets (Controller_showOrFocus env W) ! length (widgets W)) = selection (editor W)"
    and "log (Controller_showOrFocus env W)
           = log W @ fst (start_await env (editor W) (Widget_computer (length (widgets W)) (editor W)))
               @ [AddContentWidget (length (widgets W))]"
  using assms
  by (simp_all add: Controller_showOrFocus_def Widget_new_def emit_def Let_def)

lemma show_create_old:
  assumes "hasModel (editor W)" and "\<not> standaloneColorPickerVisible W" and "j < length (widgets W)"
  shows "widgets (Controller_showOrFocus env W) ! j = widgets W ! j"
  using assms
  by (simp add: Controller_showOrFocus_def Widget_new_def emit_def Let_def nth_append)

lemma Widget_computer_fields:
  "Emitter_fire (onResult (Widget_computer i ed)) = [i]"
  "c_range (Widget_computer i ed) = Some (selection_snapshot (selection ed))"
  by (simp_all add: Widget_computer_def Computer_new_def Emitter_new_def Emitter_event_def
        Emitter_fire_def Let_def)

lemma inv_show_create:
  assumes I: "picker_inv W" and m: "hasModel (editor W)" and v: "\<not> standaloneColorPickerVisible W"
  shows "picker_inv (Controller_showOrFocus env W)"
proof -
  let ?W = "Controller_showOrFocus env W"
  let ?n = "length (widgets W)"
  note f = show_create_fields [OF m v, of env]
  note o = show_create_old [OF m v, of _ env]
  have nolive: "\<not> live j W" for j
    using inv_liveD [OF I, of j] v by auto
  have lv: "live j ?W = (j = ?n)" for j
  proof (cases "j < ?n")
    case True
    with nolive [of j] show ?thesis by (simp add: live_def f o)
  next
    case False
    then show ?thesis by (auto simp add: live_def f)
  qed
  have e: "Emitter_fire (onResult (w_computer (widgets ?W ! j)))
            = (if w_disposed (widgets ?W ! j) then [] else [j]) \<and>
          c_range (w_computer (widgets ?W ! j))
            = Some (selection_snapshot (w_selection (widgets ?W ! j)))"
    if j: "j < Suc ?n" for j
  proof (cases "j < ?n")
    case True
    with I show ?thesis by (simp add: o picker_inv_def)
  next
    case False
    with j have "j = ?n" by simp
    then show ?thesis by (simp add: f Widget_computer_fields)
  qed
  from inv_hiddenD [OF I v] e show ?thesis
    unfolding picker_inv_def lv by (simp add: f)
qed

lemma showOrFocus_nomodel:
  "\<not> hasModel (editor W) \<Longrightarrow> Controller_showOrFocus env W = W"
  by (simp add: Controller_showOrFocus_def)

lemma showOrFocus_focused:
  "standaloneColorPickerVisible W \<Longrightarrow> standaloneColorPickerFocused W
     \<Longrightarrow> Controller_showOrFocus env W = W"
  by (simp add: Controller_showOrFocus_def)

lemma showOrFocus_focus:
  assumes "hasModel (editor W)" and "standaloneColorPickerVisible W"
    and "\<not> standaloneColorPickerFocused W"
  shows "Controller_showOrFocus env W =
     (case standaloneColorPickerWidget W of
        None \<Rightarrow> W\<lparr>standaloneColorPickerFocused := True\<rparr>
      | Some i \<Rightarrow> emit [BodyFocus i] (W\<lparr>standaloneColorPickerFocused := True\<rparr>))"
  using assms by (simp add: Controller_showOrFocus_def Widget_focus_def Let_def split: option.splits)

lemma inv_showOrFocus:
  assumes I: "picker_inv W"
  shows "picker_inv (Controller_showOrFocus env W)"
proof -
  consider (nomodel) "\<not> hasModel (editor W)"
    | (focused) "standaloneColorPickerVisible W" "standaloneColorPickerFocused W"
    | (create) "hasModel (editor W)" "\<not> standaloneColorPickerVisible W"
    | (focus) "hasModel (editor W)" "standaloneColorPickerVisible W" "\<not> standaloneColorPickerFocused W"
    by blast
  then show ?thesis
  proof cases
    case nomodel
    then show ?thesis using I by (simp add: showOrFocus_nomodel)
  next
    case focused
    then show ?thesis using I by (simp add: showOrFocus_focused)
  next
    case create
    with I show ?thesis by (rule inv_show_create)
  next
    case focus
    from focus(2) have "picker_inv (W\<lparr>standaloneColorPickerFocused := True\<rparr>)"
      by (intro inv_same [OF I]) simp_all
    then show ?thesis
      by (simp add: showOrFocus_focus [OF focus] split: option.splits)
  qed
qed

lemma live_emit [simp]: "live i (emit es W) = live i W"
  by (simp add: live_def emit_def)

lemma live_Widget_updateEditor [simp]: "live i (Widget_updateEditor j W) = live i W"
  by (simp add: Widget_updateEditor_def split: option.splits)

lemma inv_step: "picker_inv W \<Longrightarrow> picker_inv (step env ev W)"
  by (cases ev)
     (simp_all add: inv_showOrFocus inv_Controller_hide inv_Controller_insertColor
        inv_fire_cursorPosition inv_editor_fields inv_Widget_hide inv_Widget_updateEditor
        Widget_focus_def inv_resumed)

lemma inv_fold_step: "picker_inv W \<Longrightarrow> picker_inv (fold (step env) evs W)"
  by (induction evs arbitrary: W) (simp_all add: inv_step)

lemma inv_run: "picker_inv (run env evs (World_init ed))"
  by (simp add: run_def inv_fold_step inv_init)

lemmas sample_defs = sample_env_def silent_env_def sample_editor_def empty_editor_def
  sample_range_def sample_picker_def placeholder_def zero_range_def

lemmas model_defs = World_init_def run_def Controller_showOrFocus_def Controller_hide_def
  Controller_insertColor_def Widget_new_def Widget_computer_def Computer_new_def
  Emitter_new_def Emitter_event_def Emitter_fire_def Emitter_release_def Emitter_dispose_def
  start_await_def start_resume_def start_def computeAsync_def first_provider_def
  Widget_hide_def Widget_dispose_def Widget_focus_def Widget_updateEditor_def Widget_render_def
  editor_setSelection_def fire_cursorPosition_def cursor_listener_def relabel_def
  update_widget_def emit_def live_def resumed_def deliver_def selection_snapshot_def
  has_enterButton_def has_closeButton_def Let_def



lemma start_await_log:
  "filter is_Fire (fst (start_await env ed c)) = []"
  "length (filter is_CreateColorHover (fst (start_await env ed c))) \<le> 1"
  by (simp_all add: start_await_def computeAsync_def Let_def split: option.splits)

lemma start_resume_log:
  "length (filter is_Fire (fst (start_resume c x))) \<le> 1"
  "filter is_CreateColorHover (fst (start_resume c x)) = []"
  by (simp_all add: start_resume_def Let_def split: option.splits)

lemma computer_step_count:
  "fires (computer_step env ed op s) + length (cs_awaiting (computer_step env ed op s))
     \<le> fires s + length (cs_awaiting s) + (if op = Start then 1 else 0)"
  "lookups (computer_step env ed op s) \<le> lookups s + (if op = Start then 1 else 0)"
proof -
  show "fires (computer_step env ed op s) + length (cs_awaiting (computer_step env ed op s))
     \<le> fires s + length (cs_awaiting s) + (if op = Start then 1 else 0)"
  proof (cases op)
    case Start
    then show ?thesis
      by (simp add: fires_def start_await_log split: option.splits)
  next
    case Resume
    then show ?thesis
      using start_resume_log(1) [of "cs_computer s"]
      by (auto simp add: fires_def split: list.splits)
  qed (simp_all add: fires_def)
  show "lookups (computer_step env ed op s) \<le> lookups s + (if op = Start then 1 else 0)"
  proof (cases op)
    case Start
    then show ?thesis
      using start_await_log(2) [of env ed "cs_computer s"]
      by (simp add: lookups_def split: option.splits)
  next
    case Resume
    then show ?thesis
      by (simp add: lookups_def start_resume_log split: list.splits)
  qed (simp_all add: lookups_def)
qed

lemma computer_run_count:
  "fires (computer_run env ed ops s) + length (cs_awaiting (computer_run env ed ops s))
     \<le> fires s + length (cs_awaiting s) + count_list ops Start \<and>
   lookups (computer_run env ed ops s) \<le> lookups s + count_list ops Start"
proof (induction ops arbitrary: s)
  case Nil
  show ?case by (simp add: computer_run_def)
next
  case (Cons op ops)
  from Cons [of "computer_step env ed op s"] computer_step_count [of env ed op s]
  show ?case by (simp add: computer_run_def split: if_splits)
qed

lemma computer_run_append:
  "computer_run env ed (ops @ ops') s = computer_run env ed ops' (computer_run env ed ops s)"
  by (simp add: computer_run_def)

lemma disposed_step:
  assumes "em_disposed (onResult (cs_computer s))"
  shows "em_disposed (onResult (cs_computer (computer_step env ed op s))) \<and>
         cs_delivered (computer_step env ed op s) = cs_delivered s"
  using assms
  by (cases op)
     (simp_all add: start_resume_def Emitter_fire_def Emitter_event_def Computer_dispose_def
        Emitter_dispose_def Let_def split: option.splits list.splits)

lemma disposed_run:
  assumes "em_disposed (onResult (cs_computer s))"
  shows "em_disposed (onResult (cs_computer (computer_run env ed ops s))) \<and>
         cs_delivered (computer_run env ed ops s) = cs_delivered s"
  using assms
proof (induction ops arbitrary: s)
  case Nil
  then show ?case by (simp add: computer_run_def)
next
  case (Cons op ops)
  from disposed_step [OF Cons.prems, of env ed op]
  have d: "em_disposed (onResult (cs_computer (computer_step env ed op s)))"
    and e: "cs_delivered (computer_step env ed op s) = cs_delivered s" by simp_all
  from Cons.IH [OF d] e show ?case by (simp add: computer_run_def)
qed


lemma received_emit: "received i (emit es W) = received i W @ List.map_filter (render_of i) es"
  by (simp add: received_def emit_def map_filter_def)

lemma data_inv_same:
  assumes "data_inv W" and "widgets W' = widgets W" and "log W' = log W"
  shows "data_inv W'"
  using assms(1) unfolding data_inv_def received_def assms(2,3) .

lemma data_inv_emit:
  assumes "data_inv W" and "\<And>j. List.map_filter (render_of j) es = []"
  shows "data_inv (emit es W)"
proof -
  have r: "received j (emit es W) = received j W" for j
    by (simp add: received_emit assms(2))
  have w: "widgets (emit es W) = widgets W" by (simp add: emit_def)
  from assms(1) show ?thesis unfolding data_inv_def r w .
qed

lemma data_inv_update_widget:
  assumes "data_inv W" and "\<And>w. colorHoverData (f w) = colorHoverData w"
  shows "data_inv (update_widget i f W)"
proof -
  have r: "received j (update_widget i f W) = received j W" for j
    by (simp add: received_def update_widget_def)
  have l: "length (widgets (update_widget i f W)) = length (widgets W)"
    by (simp add: update_widget_def)
  have c: "colorHoverData (widgets (update_widget i f W) ! j) = colorHoverData (widgets W ! j)"
    if "j < length (widgets W)" for j
    using that assms(2) by (cases "j = i") (simp_all add: update_widget_def)
  from assms(1) show ?thesis unfolding data_inv_def r l by (simp add: c)
qed

lemma data_inv_Widget_hide:
  assumes "data_inv W"
  shows "data_inv (Widget_hide i W)"
proof -
  have r: "received j (Widget_hide i W) = received j W" for j
    by (simp add: received_def Widget_hide_fields map_filter_def)
  from assms show ?thesis
    unfolding data_inv_def r by (simp add: Widget_hide_fields Widget_hide_widget)
qed

lemma data_inv_cursor_listener: "data_inv W \<Longrightarrow> data_inv (cursor_listener i W)"
  by (simp add: cursor_listener_def data_inv_Widget_hide data_inv_update_widget)

lemma data_inv_fold_cursor: "data_inv W \<Longrightarrow> data_inv (fold cursor_listener xs W)"
  by (induction xs arbitrary: W) (simp_all add: data_inv_cursor_listener)

lemma data_inv_editor_setSelection:
  assumes "data_inv W"
  shows "data_inv (editor_setSelection rng W)"
proof -
  have "data_inv (W\<lparr>editor := (editor W)\<lparr>selection := Some rng\<rparr>\<rparr>)"
    by (rule data_inv_same [OF assms]) simp_all
  then have "data_inv (emit [SetSelection rng] (W\<lparr>editor := (editor W)\<lparr>selection := Some rng\<rparr>\<rparr>))"
    by (rule data_inv_emit) (simp add: map_filter_def)
  then show ?thesis
    by (simp add: editor_setSelection_def Let_def fire_cursorPosition_def data_inv_fold_cursor)
qed

lemma data_inv_rendering:
  assumes D: "data_inv W" and i: "i < length (widgets W)"
  shows "data_inv (emit [RenderHoverParts i d] (update_widget i (\<lambda>w. w\<lparr>colorHoverData := Some d\<rparr>) W))"
proof -
  let ?W = "emit [RenderHoverParts i d] (update_widget i (\<lambda>w. w\<lparr>colorHoverData := Some d\<rparr>) W)"
  have r: "received j ?W = (if j = i then received j W @ [d] else received j W)" for j
    by (simp add: received_def emit_def update_widget_def map_filter_def)
  have l: "length (widgets ?W) = length (widgets W)"
    by (simp add: emit_def update_widget_def)
  have c: "colorHoverData (widgets ?W ! j)
      = (if j = i then Some d else colorHoverData (widgets W ! j))"
    if "j < length (widgets W)" for j
    using that by (simp add: emit_def update_widget_def)
  from D i show ?thesis
    unfolding data_inv_def l by (simp add: r c)
qed

lemma data_inv_Widget_render:
  assumes D: "data_inv W" and i: "i < length (widgets W)"
  shows "data_inv (Widget_render env i d f W)"
proof -
  note R = data_inv_rendering [OF D i, of d]
  show ?thesis
    by (simp add: Widget_render_def Let_def R data_inv_emit data_inv_update_widget
          data_inv_editor_setSelection map_filter_def split: option.splits)
qed


lemma map_filter_app:
  "List.map_filter f (xs @ ys) = List.map_filter f xs @ List.map_filter f ys"
  by (simp add: map_filter_def)

lemma no_render_start:
  "List.map_filter (render_of j) (fst (start_await env ed c)) = []"
  "List.map_filter (render_of j) (fst (start_resume c x)) = []"
  by (simp_all add: start_await_def start_resume_def computeAsync_def Let_def map_filter_def
        split: option.splits)

lemma deliveries:
  assumes I: "picker_inv W" and i: "i < length (widgets W)"
  shows "snd (start_resume (w_computer (widgets W ! i)) x) = [] \<or>
         (\<exists>r. snd (start_resume (w_computer (widgets W ! i)) x) = [(i, r)])"
proof -
  from I i have "Emitter_fire (onResult (w_computer (widgets W ! i)))
      = (if w_disposed (widgets W ! i) then [] else [i])"
    by (simp add: picker_inv_def)
  then show ?thesis
    by (simp add: start_resume_def Let_def split: option.splits)
qed

lemma data_inv_resumed:
  assumes I: "picker_inv W" and D: "data_inv W"
  shows "data_inv (resumed env i W)"
proof (cases "i < length (widgets W)")
  case False
  with D show ?thesis by (simp add: resumed_def)
next
  case i: True
  show ?thesis
  proof (cases "w_awaiting (widgets W ! i)")
    case None
    with D i show ?thesis by (simp add: resumed_def)
  next
    case (Some x)
    let ?c = "w_computer (widgets W ! i)"
    let ?W1 = "emit (fst (start_resume ?c x)) (update_widget i (\<lambda>w. w\<lparr>w_awaiting := None\<rparr>) W)"
    have D1: "data_inv ?W1"
      by (intro data_inv_emit data_inv_update_widget D) (simp_all add: no_render_start)
    have l1: "i < length (widgets ?W1)"
      using i by (simp add: emit_def update_widget_def)
    have eq: "resumed env i W = fold (deliver env) (snd (start_resume ?c x)) ?W1"
      using i Some by (simp add: resumed_def)
    from deliveries [OF I i, of x] show ?thesis
    proof
      assume "snd (start_resume ?c x) = []"
      with D1 eq show ?thesis by simp
    next
      assume "\<exists>r. snd (start_resume ?c x) = [(i, r)]"
      then obtain r where "snd (start_resume ?c x) = [(i, r)]" ..
      with eq have "resumed env i W = Widget_render env i (r_value r) (r_foundInMap r) ?W1"
        by (simp add: deliver_def)
      with data_inv_Widget_render [OF D1 l1] show ?thesis by simp
    qed
  qed
qed

lemma data_inv_show_create:
  assumes D: "data_inv W" and m: "hasModel (editor W)" and v: "\<not> standaloneColorPickerVisible W"
  shows "data_inv (Controller_showOrFocus env W)"
proof -
  let ?W = "Controller_showOrFocus env W"
  let ?n = "length (widgets W)"
  note f = show_create_fields [OF m v, of env]
  note o = show_create_old [OF m v, of _ env]
  have r: "received j ?W = received j W" for j
    by (simp add: received_def f map_filter_app no_render_start map_filter_simps)
  from D have z: "received ?n W = []" by (simp add: data_inv_def)
  have c: "colorHoverData (widgets ?W ! j)
      = (if received j ?W = [] then None else Some (last (received j ?W)))"
    if j: "j < Suc ?n" for j
  proof (cases "j < ?n")
    case True
    with D show ?thesis by (simp add: o r data_inv_def)
  next
    case False
    with j have "j = ?n" by simp
    then show ?thesis by (simp add: f r z)
  qed
  have e: "received j ?W = []" if "Suc ?n \<le> j" for j
    using D that by (simp add: r data_inv_def)
  from c e show ?thesis unfolding data_inv_def by (simp add: f)
qed

lemma data_inv_showOrFocus:
  assumes D: "data_inv W"
  shows "data_inv (Controller_showOrFocus env W)"
proof -
  consider (nomodel) "\<not> hasModel (editor W)"
    | (focused) "standaloneColorPickerVisible W" "standaloneColorPickerFocused W"
    | (create) "hasModel (editor W)" "\<not> standaloneColorPickerVisible W"
    | (focus) "hasModel (editor W)" "standaloneColorPickerVisible W" "\<not> standaloneColorPickerFocused W"
    by blast
  then show ?thesis
  proof cases
    case nomodel
    then show ?thesis using D by (simp add: showOrFocus_nomodel)
  next
    case focused
    then show ?thesis using D by (simp add: showOrFocus_focused)
  next
    case create
    with D show ?thesis by (rule data_inv_show_create)
  next
    case focus
    have "data_inv (W\<lparr>standaloneColorPickerFocused := True\<rparr>)"
      by (rule data_inv_same [OF D]) simp_all
    then show ?thesis
      by (simp add: showOrFocus_focus [OF focus] data_inv_emit map_filter_def split: option.splits)
  qed
qed

lemma data_inv_Widget_updateEditor: "data_inv W \<Longrightarrow> data_inv (Widget_updateEditor i W)"
  by (simp add: Widget_updateEditor_def data_inv_emit map_filter_def split: option.splits)

lemma data_inv_Controller_hide:
  assumes D: "data_inv W"
  shows "data_inv (Controller_hide W)"
proof -
  have "data_inv (W\<lparr>standaloneColorPickerFocused := False, standaloneColorPickerVisible := False\<rparr>)"
    by (rule data_inv_same [OF D]) simp_all
  then show ?thesis
    by (simp add: Controller_hide_def Let_def data_inv_emit data_inv_Widget_hide map_filter_def
          split: option.splits)
qed

lemma data_inv_step:
  assumes I: "picker_inv W" and D: "data_inv W"
  shows "data_inv (step env ev W)"
proof (cases ev)
  case ShowOrFocus
  with D show ?thesis by (simp add: data_inv_showOrFocus)
next
  case Hide
  with D show ?thesis by (simp add: data_inv_Controller_hide)
next
  case InsertColor
  with D show ?thesis
    by (simp add: Controller_insertColor_def data_inv_Controller_hide
          data_inv_Widget_updateEditor split: option.splits)
next
  case (CursorMoved p s)
  have "data_inv (W\<lparr>editor := (editor W)\<lparr>viewCursor := p, selection := s\<rparr>\<rparr>)"
    by (rule data_inv_same [OF D]) simp_all
  with CursorMoved show ?thesis
    by (simp add: fire_cursorPosition_def data_inv_fold_cursor)
next
  case (ModelChanged b)
  have "data_inv (W\<lparr>editor := (editor W)\<lparr>hasModel := b\<rparr>\<rparr>)"
    by (rule data_inv_same [OF D]) simp_all
  with ModelChanged show ?thesis by simp
next
  case (DidBlur i)
  with D show ?thesis by (simp add: data_inv_Widget_hide)
next
  case (DidFocus i)
  with D show ?thesis by (simp add: Widget_focus_def data_inv_emit map_filter_def)
next
  case (EnterClicked i)
  with D show ?thesis by (simp add: data_inv_Widget_hide data_inv_Widget_updateEditor)
next
  case (CloseClicked i)
  with D show ?thesis by (simp add: data_inv_Widget_hide)
next
  case (ContextHide i)
  with D show ?thesis by (simp add: data_inv_Widget_hide)
next
  case (Resumed i)
  with I D show ?thesis by (simp add: data_inv_resumed)
qed

lemma invs_fold_step:
  "picker_inv W \<Longrightarrow> data_inv W \<Longrightarrow> data_inv (fold (step env) evs W)"
  by (induction evs arbitrary: W) (simp_all add: inv_step data_inv_step)

lemma data_inv_run: "data_inv (run env evs (World_init ed))"
proof -
  have "data_inv (World_init ed)"
    by (simp add: data_inv_def World_init_def received_def map_filter_def)
  with inv_init show ?thesis
    unfolding run_def by (rule invs_fold_step)
qed


lemma render_found:
  assumes i: "i < length (widgets W)" and c: "cursorListeners (editor W) = [i]"
    and r: "renderHoverParts env d = Some cpw"
  shows "colorPickerWidget (widgets (Widget_render env i d True W) ! i) = Some (relabel cpw)"
    and "selection (editor (Widget_render env i d True W)) = Some (ch_range d)"
    and "log (Widget_render env i d True W)
           = log W @ [RenderHoverParts i d, SetSelection (ch_range d), LayoutContentWidget i]"
    and "standaloneColorPickerVisible (Widget_render env i d True W) = standaloneColorPickerVisible W"
    and "standaloneColorPickerFocused (Widget_render env i d True W) = standaloneColorPickerFocused W"
    and "contentWidgets (editor (Widget_render env i d True W)) = contentWidgets (editor W)"
    and "cursorListeners (editor (Widget_render env i d True W)) = cursorListeners (editor W)"
    and "length (widgets (Widget_render env i d True W)) = length (widgets W)"
    and "w_disposed (widgets (Widget_render env i d True W) ! i) = w_disposed (widgets W ! i)"
    and "colorHoverData (widgets (Widget_render env i d True W) ! i) = Some d"
    and "selectionSetInEditor (widgets (Widget_render env i d True W) ! i)
           = (selection (editor W) = Some (ch_range d))"
  using i c r
  by (simp_all add: Widget_render_def editor_setSelection_def fire_cursorPosition_def
        cursor_listener_def update_widget_def emit_def Let_def)

lemma resumed_live:
  assumes I: "picker_inv W" and l: "live i W" and a: "w_awaiting (widgets W ! i) = Some (Some x)"
  shows "resumed env i W =
     Widget_render env i (result x) (foundInEditor x)
       (emit [Fire \<lparr>r_value = result x, r_foundInMap = foundInEditor x\<rparr>]
          (update_widget i (\<lambda>w. w\<lparr>w_awaiting := None\<rparr>) W))"
proof -
  from l have i: "i < length (widgets W)" and nd: "\<not> w_disposed (widgets W ! i)"
    by (simp_all add: live_def)
  from I i nd have "Emitter_fire (onResult (w_computer (widgets W ! i))) = [i]"
    by (simp add: picker_inv_def)
  with i a show ?thesis
    by (simp add: resumed_def start_resume_def deliver_def Let_def)
qed


lemma fire_inv_view: "starts_view W' = starts_view W \<Longrightarrow> fire_inv W' = fire_inv W"
proof -
  assume a: "starts_view W' = starts_view W"
  then have m: "map w_awaiting (widgets W') = map w_awaiting (widgets W)"
    and f: "filter is_Fire (log W') = filter is_Fire (log W)"
    by (simp_all add: starts_view_def)
  from m have "length (map w_awaiting (widgets W')) = length (map w_awaiting (widgets W))"
    by simp
  then have l: "length (widgets W') = length (widgets W)" by simp
  show ?thesis unfolding fire_inv_def m f l ..
qed

lemma map_update_same:
  assumes "f y = f (xs ! i)"
  shows "map f (xs[i := y]) = map f xs"
proof (cases "i < length xs")
  case True
  have "map f (xs[i := y]) = (map f xs)[i := f y]" by (rule map_update)
  also have "\<dots> = (map f xs)[i := map f xs ! i]" using True assms by simp
  also have "\<dots> = map f xs" by (rule list_update_id)
  finally show ?thesis .
next
  case False
  then have "xs[i := y] = xs" by (intro list_update_beyond) simp
  then show ?thesis by simp
qed

lemma view_emit: "filter is_Fire es = [] \<Longrightarrow> starts_view (emit es W) = starts_view W"
  by (simp add: starts_view_def emit_def)

lemma view_update_widget:
  "(\<And>w. w_awaiting (f w) = w_awaiting w) \<Longrightarrow> starts_view (update_widget i f W) = starts_view W"
  by (simp add: starts_view_def update_widget_def map_update_same)

lemma view_Widget_hide: "starts_view (Widget_hide i W) = starts_view W"
  by (simp add: starts_view_def Widget_hide_def Widget_dispose_def update_widget_def emit_def
        Let_def map_update_same)

lemma view_cursor_listener: "starts_view (cursor_listener i W) = starts_view W"
  by (simp add: cursor_listener_def view_Widget_hide view_update_widget)

lemma view_fold_cursor: "starts_view (fold cursor_listener xs W) = starts_view W"
  by (induction xs arbitrary: W) (simp_all add: view_cursor_listener)

lemma view_editor_setSelection: "starts_view (editor_setSelection rng W) = starts_view W"
proof -
  have "starts_view (emit [SetSelection rng] (W\<lparr>editor := (editor W)\<lparr>selection := Some rng\<rparr>\<rparr>))
      = starts_view W"
    by (simp add: starts_view_def emit_def)
  then show ?thesis
    by (simp add: editor_setSelection_def Let_def fire_cursorPosition_def view_fold_cursor)
qed

lemma view_Widget_render: "starts_view (Widget_render env i d f W) = starts_view W"
  by (simp add: Widget_render_def Let_def view_emit view_update_widget view_editor_setSelection
        split: option.splits)

lemma view_fold_deliver: "starts_view (fold (deliver env) ds W) = starts_view W"
  by (induction ds arbitrary: W) (simp_all add: deliver_def view_Widget_render)

lemma filter_update_drop:
  assumes "i < length xs" and "P (xs ! i)" and "\<not> P y"
  shows "Suc (length (filter P (xs[i := y]))) = length (filter P xs)"
  using assms
proof (induction xs arbitrary: i)
  case Nil
  then show ?case by simp
next
  case (Cons a xs)
  then show ?case by (cases i) simp_all
qed

lemma fire_inv_resumed:
  assumes F: "fire_inv W"
  shows "fire_inv (resumed env i W)"
proof (cases "i < length (widgets W)")
  case False
  with F show ?thesis by (simp add: resumed_def)
next
  case i: True
  show ?thesis
  proof (cases "w_awaiting (widgets W ! i)")
    case None
    with F i show ?thesis by (simp add: resumed_def)
  next
    case (Some x)
    let ?c = "w_computer (widgets W ! i)"
    let ?W1 = "emit (fst (start_resume ?c x)) (update_widget i (\<lambda>w. w\<lparr>w_awaiting := None\<rparr>) W)"
    have eq: "resumed env i W = fold (deliver env) (snd (start_resume ?c x)) ?W1"
      using i Some by (simp add: resumed_def)
    have m: "map w_awaiting (widgets ?W1) = (map w_awaiting (widgets W))[i := None]"
      by (simp add: emit_def update_widget_def map_update)
    have d: "Suc (length (filter (\<lambda>a. a \<noteq> None) ((map w_awaiting (widgets W))[i := None])))
        = length (filter (\<lambda>a. a \<noteq> None) (map w_awaiting (widgets W)))"
      using i Some by (intro filter_update_drop) simp_all
    have l: "length (filter is_Fire (log ?W1)) \<le> Suc (length (filter is_Fire (log W)))"
      using start_resume_log(1) [of ?c x] by (simp add: emit_def update_widget_def)
    have n: "length (widgets ?W1) = length (widgets W)"
      by (simp add: emit_def update_widget_def)
    from F d l have "fire_inv ?W1"
      unfolding fire_inv_def m n by linarith
    then show ?thesis
      unfolding eq by (simp add: fire_inv_view [OF view_fold_deliver])
  qed
qed

lemma fire_inv_show_create:
  assumes F: "fire_inv W" and m: "hasModel (editor W)" and v: "\<not> standaloneColorPickerVisible W"
  shows "fire_inv (Controller_showOrFocus env W)"
proof -
  let ?W = "Controller_showOrFocus env W"
  have "take (length (widgets W)) (widgets ?W) = widgets W"
    using m v by (rule show_create_fields)
  moreover have "length (widgets ?W) = Suc (length (widgets W))"
    using m v by (rule show_create_fields)
  ultimately have "widgets ?W = widgets W @ [widgets ?W ! length (widgets W)]"
    by (metis lessI take_Suc_conv_app_nth take_all order_refl)
  then have "map w_awaiting (widgets ?W)
      = map w_awaiting (widgets W) @ [w_awaiting (widgets ?W ! length (widgets W))]"
    by (metis list.simps(8) list.simps(9) map_append)
  then have w: "\<exists>a. map w_awaiting (widgets ?W) = map w_awaiting (widgets W) @ [a]" ..
  have l: "filter is_Fire (log ?W) = filter is_Fire (log W)"
    using m v by (simp add: show_create_fields start_await_log)
  have n: "length (widgets ?W) = Suc (length (widgets W))"
    using m v by (simp add: show_create_fields)
  from w obtain a where "map w_awaiting (widgets ?W) = map w_awaiting (widgets W) @ [a]" ..
  then have "length (filter (\<lambda>a. a \<noteq> None) (map w_awaiting (widgets ?W)))
      \<le> Suc (length (filter (\<lambda>a. a \<noteq> None) (map w_awaiting (widgets W))))"
    by simp
  with F show ?thesis unfolding fire_inv_def l n by linarith
qed

lemma fire_inv_showOrFocus:
  assumes F: "fire_inv W"
  shows "fire_inv (Controller_showOrFocus env W)"
proof -
  consider (nomodel) "\<not> hasModel (editor W)"
    | (focused) "standaloneColorPickerVisible W" "standaloneColorPickerFocused W"
    | (create) "hasModel (editor W)" "\<not> standaloneColorPickerVisible W"
    | (focus) "hasModel (editor W)" "standaloneColorPickerVisible W" "\<not> standaloneColorPickerFocused W"
    by blast
  then show ?thesis
  proof cases
    case nomodel
    then show ?thesis using F by (simp add: showOrFocus_nomodel)
  next
    case focused
    then show ?thesis using F by (simp add: showOrFocus_focused)
  next
    case create
    with F show ?thesis by (rule fire_inv_show_create)
  next
    case focus
    have "starts_view (W\<lparr>standaloneColorPickerFocused := True\<rparr>) = starts_view W"
      by (simp add: starts_view_def)
    then have "starts_view (Controller_showOrFocus env W) = starts_view W"
      by (simp add: showOrFocus_focus [OF focus] view_emit split: option.splits)
    then have "fire_inv (Controller_showOrFocus env W) = fire_inv W" by (rule fire_inv_view)
    with F show ?thesis by simp
  qed
qed

lemma view_Widget_updateEditor: "starts_view (Widget_updateEditor i W) = starts_view W"
  by (simp add: Widget_updateEditor_def view_emit split: option.splits)

lemma view_Controller_hide: "starts_view (Controller_hide W) = starts_view W"
proof -
  have "starts_view (W\<lparr>standaloneColorPickerFocused := False, standaloneColorPickerVisible := False\<rparr>)
      = starts_view W"
    by (simp add: starts_view_def)
  then show ?thesis
    by (simp add: Controller_hide_def Let_def view_emit view_Widget_hide split: option.splits)
qed

lemma fire_inv_step:
  assumes F: "fire_inv W"
  shows "fire_inv (step env ev W)"
proof (cases ev)
  case ShowOrFocus
  with F show ?thesis by (simp add: fire_inv_showOrFocus)
next
  case Hide
  with F show ?thesis by (simp add: fire_inv_view [OF view_Controller_hide])
next
  case InsertColor
  have "starts_view (Controller_insertColor W) = starts_view W"
    by (simp add: Controller_insertColor_def view_Controller_hide view_Widget_updateEditor
          split: option.splits)
  then have "fire_inv (Controller_insertColor W) = fire_inv W" by (rule fire_inv_view)
  with InsertColor F show ?thesis by simp
next
  case (CursorMoved p s)
  have "starts_view (step env ev W) = starts_view W"
    using CursorMoved by (simp add: fire_cursorPosition_def view_fold_cursor) (simp add: starts_view_def)
  then have "fire_inv (step env ev W) = fire_inv W" by (rule fire_inv_view)
  with F show ?thesis by simp
next
  case (ModelChanged b)
  have "starts_view (step env ev W) = starts_view W"
    using ModelChanged by (simp add: starts_view_def)
  then have "fire_inv (step env ev W) = fire_inv W" by (rule fire_inv_view)
  with F show ?thesis by simp
next
  case (DidBlur i)
  with F show ?thesis by (simp add: fire_inv_view [OF view_Widget_hide])
next
  case (DidFocus i)
  have "starts_view (Widget_focus i W) = starts_view W"
    by (simp add: Widget_focus_def view_emit)
  then have "fire_inv (Widget_focus i W) = fire_inv W" by (rule fire_inv_view)
  with DidFocus F show ?thesis by simp
next
  case (EnterClicked i)
  have "starts_view (Widget_hide i (Widget_updateEditor i W)) = starts_view W"
    by (simp add: view_Widget_hide view_Widget_updateEditor)
  then have "fire_inv (Widget_hide i (Widget_updateEditor i W)) = fire_inv W" by (rule fire_inv_view)
  with EnterClicked F show ?thesis by simp
next
  case (CloseClicked i)
  with F show ?thesis by (simp add: fire_inv_view [OF view_Widget_hide])
next
  case (ContextHide i)
  with F show ?thesis by (simp add: fire_inv_view [OF view_Widget_hide])
next
  case (Resumed i)
  with F show ?thesis by (simp add: fire_inv_resumed)
qed

lemma fire_inv_fold: "fire_inv W \<Longrightarrow> fire_inv (fold (step env) evs W)"
  by (induction evs arbitrary: W) (simp_all add: fire_inv_step)

lemma fire_inv_run: "fire_inv (run env evs (World_init ed))"
proof -
  have "fire_inv (World_init ed)" by (simp add: fire_inv_def World_init_def)
  then show ?thesis unfolding run_def by (rule fire_inv_fold)
qed

section \<open>The claims\<close>

subsection \<open>C1\<close>




subsection \<open>C2\<close>

text \<open>
  Claim C2, as stated, fails: \<^verbatim>\<open>start()\<close> is public and has no single-shot guard, so a
  second call on the same instance looks up and fires again.
\<close>

theorem C2_start_twice_fires_twice:
  "fires (computer_run sample_env sample_editor [Subscribe 0, Start, Resume, Start, Resume]
            (computer_init (Computer_new (Some sample_range)))) = 2 \<and>
   length (cs_delivered (computer_run sample_env sample_editor [Subscribe 0, Start, Resume, Start, Resume]
            (computer_init (Computer_new (Some sample_range))))) = 2"
  by (simp add: fires_def computer_run_def computer_init_def model_defs sample_defs)

text \<open>
  Claim C2, amended. Over any sequence of \<^verbatim>\<open>start()\<close> calls, continuations,
  subscriptions and \<^verbatim>\<open>dispose()\<close>, the computer fires at most once and looks up at most
  once for each call of \<^verbatim>\<open>start()\<close>, so at most once when \<^verbatim>\<open>start()\<close> is called at
  most once (the widget calls it once, in its constructor); a call with a range, a
  loaded document and an answer from the participant makes exactly one lookup and one
  emission; and after \<^verbatim>\<open>dispose()\<close> no listener is called again. In a world the
  events produce there are no more emissions than widgets constructed.
\<close>

theorem C2_at_most_once_per_start:
  "fires (computer_run env ed ops (computer_init c)) \<le> count_list ops Start \<and>
   lookups (computer_run env ed ops (computer_init c)) \<le> count_list ops Start \<and>
   (count_list ops Start \<le> 1 \<longrightarrow> fires (computer_run env ed ops (computer_init c)) \<le> 1) \<and>
   (c_range c = Some rng \<and> hasModel ed \<and>
      createColorHover env (placeholder rng) (first_provider (rev (ordered env))) = Some r \<longrightarrow>
      cs_log (computer_run env ed [Start, Resume] (computer_init c))
        = [CreateColorHover (placeholder rng) (first_provider (rev (ordered env))),
           Fire \<lparr>r_value = colorHover r, r_foundInMap = foundInMap r\<rparr>] \<and>
      cs_awaiting (computer_run env ed [Start, Resume] (computer_init c)) = []) \<and>
   cs_delivered (computer_run env ed (ops @ Dispose # ops') (computer_init c))
     = cs_delivered (computer_run env ed ops (computer_init c)) \<and>
   length (filter is_Fire (log (run env evs (World_init ed'))))
     \<le> length (widgets (run env evs (World_init ed')))"
proof -
  let ?s = "computer_init c"
  have z: "fires ?s = 0" "lookups ?s = 0" "cs_awaiting ?s = []"
    by (simp_all add: fires_def lookups_def computer_init_def)
  from computer_run_count [of env ed ops ?s] z
  have a: "fires (computer_run env ed ops ?s) \<le> count_list ops Start"
    and b: "lookups (computer_run env ed ops ?s) \<le> count_list ops Start"
    by simp_all
  have c: "c_range c = Some rng \<and> hasModel ed \<and>
      createColorHover env (placeholder rng) (first_provider (rev (ordered env))) = Some r \<longrightarrow>
      cs_log (computer_run env ed [Start, Resume] ?s)
        = [CreateColorHover (placeholder rng) (first_provider (rev (ordered env))),
           Fire \<lparr>r_value = colorHover r, r_foundInMap = foundInMap r\<rparr>] \<and>
      cs_awaiting (computer_run env ed [Start, Resume] ?s) = []"
    by (simp add: computer_run_def computer_init_def start_await_def start_resume_def
          computeAsync_def placeholder_def Let_def)
  have "em_disposed (onResult (cs_computer (computer_step env ed Dispose (computer_run env ed ops ?s))))"
    by (simp add: Computer_dispose_def Emitter_dispose_def)
  from disposed_run [OF this, of env ed ops']
  have d: "cs_delivered (computer_run env ed (ops @ Dispose # ops') ?s)
      = cs_delivered (computer_run env ed ops ?s)"
    by (simp add: computer_run_def)
  have e: "length (filter is_Fire (log (run env evs (World_init ed'))))
      \<le> length (widgets (run env evs (World_init ed')))"
    using fire_inv_run [of env evs ed'] by (simp add: fire_inv_def)
  from a b c d e show ?thesis by simp
qed

theorem C2_at_most_once_per_start_witness:
  "count_list [Subscribe 0, Start, Resume] Start \<le> 1 \<and>
   fires (computer_run sample_env sample_editor [Subscribe 0, Start, Resume]
           (computer_init (Computer_new (Some sample_range)))) = 1 \<and>
   cs_log (computer_run sample_env sample_editor [Start, Resume]
           (computer_init (Computer_new (Some sample_range))))
     = [CreateColorHover (placeholder sample_range) (Some (Provider ''C'')),
        Fire \<lparr>r_value = \<lparr>ch_range = sample_range, ch_payload = 7\<rparr>, r_foundInMap = True\<rparr>] \<and>
   cs_delivered (computer_run sample_env sample_editor
                   ([Subscribe 0] @ Dispose # [Start, Resume])
                   (computer_init (Computer_new (Some sample_range)))) = []"
proof -
  let ?c = "Computer_new (Some sample_range)"
  note t = C2_at_most_once_per_start [of sample_env sample_editor "[Subscribe 0, Start, Resume]" ?c sample_range
      "\<lparr>colorHover = \<lparr>ch_range = sample_range, ch_payload = 7\<rparr>, foundInMap = True\<rparr>"
      "[Start, Resume]"]
  note u = C2_at_most_once_per_start [of sample_env sample_editor "[Subscribe 0]" ?c sample_range
      "\<lparr>colorHover = \<lparr>ch_range = sample_range, ch_payload = 7\<rparr>, foundInMap = True\<rparr>"
      "[Start, Resume]"]
  have h: "c_range ?c = Some sample_range \<and> hasModel sample_editor \<and>
      createColorHover sample_env (placeholder sample_range)
        (first_provider (rev (ordered sample_env)))
        = Some \<lparr>colorHover = \<lparr>ch_range = sample_range, ch_payload = 7\<rparr>, foundInMap = True\<rparr>"
    by (simp add: Computer_new_def sample_env_def sample_editor_def first_provider_def)
  have p: "first_provider (rev (ordered sample_env)) = Some (Provider ''C'')"
    by (simp add: sample_env_def first_provider_def)
  have n: "count_list [Subscribe 0, Start, Resume] Start \<le> 1" by simp
  have f1: "fires (computer_run sample_env sample_editor [Subscribe 0, Start, Resume]
           (computer_init ?c)) = 1"
    by (simp add: fires_def computer_run_def computer_init_def model_defs sample_defs)
  have l: "cs_log (computer_run sample_env sample_editor [Start, Resume] (computer_init ?c))
     = [CreateColorHover (placeholder sample_range) (Some (Provider ''C'')),
        Fire \<lparr>r_value = \<lparr>ch_range = sample_range, ch_payload = 7\<rparr>, r_foundInMap = True\<rparr>]"
    using t h p by simp
  have d: "cs_delivered (computer_run sample_env sample_editor
                   ([Subscribe 0] @ Dispose # [Start, Resume]) (computer_init ?c)) = []"
    using u by (simp add: computer_run_def computer_init_def Computer_new_def Emitter_new_def
        Emitter_event_def)
  from n f1 l d show ?thesis by blast
qed

subsection \<open>C3\<close>

text \<open>
  Claim C3. \<^verbatim>\<open>start()\<close> fires nothing and calls no listener when the range is null,
  when the editor has no document, or when the participant answers with nothing (then the
  one call made is the question to the participant); a suspended \<^verbatim>\<open>start()\<close> whose
  lookup settled to null resumes without a call and without rendering; and
  \<^verbatim>\<open>showOrFocus()\<close> without a document returns the world as it was. No branch of the
  source throws, so every function here returns a plain value.
\<close>

theorem C3_failure_paths_silent:
  "(c_range c = None \<longrightarrow> start env ed c = ([], [])) \<and>
   (\<not> hasModel ed \<longrightarrow> start env ed c = ([], [])) \<and>
   (c_range c = Some rng \<and> hasModel ed \<and>
      createColorHover env (placeholder rng) (first_provider (rev (ordered env))) = None \<longrightarrow>
      start env ed c = ([CreateColorHover (placeholder rng) (first_provider (rev (ordered env)))], [])) \<and>
   (i < length (widgets W) \<and> w_awaiting (widgets W ! i) = Some None \<longrightarrow>
      log (resumed env i W) = log W \<and>
      standaloneColorPickerVisible (resumed env i W) = standaloneColorPickerVisible W \<and>
      colorHoverData (widgets (resumed env i W) ! i) = colorHoverData (widgets W ! i)) \<and>
   (\<not> hasModel (editor W) \<longrightarrow> Controller_showOrFocus env W = W)"
  by (simp add: start_def start_await_def start_resume_def computeAsync_def placeholder_def
        Let_def resumed_def emit_def update_widget_def showOrFocus_nomodel
        split: option.splits)

theorem C3_failure_paths_silent_witness:
  "start sample_env sample_editor (Computer_new None) = ([], []) \<and>
   start sample_env empty_editor (Computer_new (Some sample_range)) = ([], []) \<and>
   start silent_env sample_editor (Computer_new (Some sample_range))
     = ([CreateColorHover (placeholder sample_range) (Some (Provider ''A''))], []) \<and>
   w_awaiting (widgets (run silent_env [ShowOrFocus] (World_init sample_editor)) ! 0) = Some None \<and>
   log (resumed silent_env 0 (run silent_env [ShowOrFocus] (World_init sample_editor)))
     = log (run silent_env [ShowOrFocus] (World_init sample_editor)) \<and>
   Controller_showOrFocus sample_env (World_init empty_editor) = World_init empty_editor"
proof -
  let ?W = "run silent_env [ShowOrFocus] (World_init sample_editor)"
  note n = C3_failure_paths_silent [of "Computer_new None" sample_env sample_editor
      sample_range 0 "World_init empty_editor"]
  note m = C3_failure_paths_silent [of "Computer_new (Some sample_range)" sample_env empty_editor
      sample_range 0 "World_init empty_editor"]
  note s = C3_failure_paths_silent [of "Computer_new (Some sample_range)" silent_env sample_editor
      sample_range 0 ?W]
  have a: "start sample_env sample_editor (Computer_new None) = ([], [])"
    using n by (simp add: Computer_new_def)
  have b: "start sample_env empty_editor (Computer_new (Some sample_range)) = ([], [])"
    using m by (simp add: empty_editor_def)
  have c: "start silent_env sample_editor (Computer_new (Some sample_range))
     = ([CreateColorHover (placeholder sample_range) (Some (Provider ''A''))], [])"
    using s by (simp add: Computer_new_def silent_env_def sample_editor_def first_provider_def)
  have l: "0 < length (widgets ?W)" by (simp add: model_defs sample_defs)
  have w: "w_awaiting (widgets ?W ! 0) = Some None" by (simp add: model_defs sample_defs)
  have d: "log (resumed silent_env 0 ?W) = log ?W"
    using s l w by blast
  have e: "Controller_showOrFocus sample_env (World_init empty_editor) = World_init empty_editor"
    using n by (simp add: World_init_def empty_editor_def)
  from a b c w d e show ?thesis by blast
qed

subsection \<open>C4\<close>

text \<open>
  Claim C4. From a state with a document loaded and neither key set, the first
  \<^verbatim>\<open>showOrFocus()\<close> sets the visible key, constructs one widget (the store grows by
  one), makes it the controller's widget and adds it to the editor; the second sets the
  focused key, calls \<^verbatim>\<open>focus\<close> on that widget, and leaves the store, the controller's
  reference and the editor's widgets as they were. In any world with the visible key set,
  \<^verbatim>\<open>showOrFocus()\<close> constructs no widget and keeps the controller's widget.
\<close>

theorem C4_showOrFocus_twice:
  "(hasModel (editor W) \<and> \<not> standaloneColorPickerVisible W \<and> \<not> standaloneColorPickerFocused W \<longrightarrow>
     standaloneColorPickerVisible (Controller_showOrFocus env W) \<and>
     \<not> standaloneColorPickerFocused (Controller_showOrFocus env W) \<and>
     length (widgets (Controller_showOrFocus env W)) = length (widgets W) + 1 \<and>
     standaloneColorPickerWidget (Controller_showOrFocus env W) = Some (length (widgets W)) \<and>
     contentWidgets (editor (Controller_showOrFocus env W))
       = contentWidgets (editor W) @ [length (widgets W)] \<and>
     standaloneColorPickerVisible (Controller_showOrFocus env (Controller_showOrFocus env W)) \<and>
     standaloneColorPickerFocused (Controller_showOrFocus env (Controller_showOrFocus env W)) \<and>
     widgets (Controller_showOrFocus env (Controller_showOrFocus env W))
       = widgets (Controller_showOrFocus env W) \<and>
     standaloneColorPickerWidget (Controller_showOrFocus env (Controller_showOrFocus env W))
       = Some (length (widgets W)) \<and>
     contentWidgets (editor (Controller_showOrFocus env (Controller_showOrFocus env W)))
       = contentWidgets (editor W) @ [length (widgets W)] \<and>
     log (Controller_showOrFocus env (Controller_showOrFocus env W))
       = log (Controller_showOrFocus env W) @ [BodyFocus (length (widgets W))]) \<and>
   (standaloneColorPickerVisible V \<longrightarrow>
     widgets (Controller_showOrFocus env V) = widgets V \<and>
     standaloneColorPickerWidget (Controller_showOrFocus env V) = standaloneColorPickerWidget V \<and>
     contentWidgets (editor (Controller_showOrFocus env V)) = contentWidgets (editor V))"
proof (intro conjI impI)
  assume v: "standaloneColorPickerVisible V"
  consider (nomodel) "\<not> hasModel (editor V)"
    | (focused) "standaloneColorPickerFocused V"
    | (focus) "hasModel (editor V)" "\<not> standaloneColorPickerFocused V"
    by blast
  then have "widgets (Controller_showOrFocus env V) = widgets V \<and>
     standaloneColorPickerWidget (Controller_showOrFocus env V) = standaloneColorPickerWidget V \<and>
     contentWidgets (editor (Controller_showOrFocus env V)) = contentWidgets (editor V)"
  proof cases
    case nomodel
    then show ?thesis by (simp add: showOrFocus_nomodel)
  next
    case focused
    with v show ?thesis by (simp add: showOrFocus_focused)
  next
    case focus
    show ?thesis
      by (simp add: showOrFocus_focus [OF focus(1) v focus(2)] emit_def split: option.splits)
  qed
  then show "widgets (Controller_showOrFocus env V) = widgets V"
    and "standaloneColorPickerWidget (Controller_showOrFocus env V) = standaloneColorPickerWidget V"
    and "contentWidgets (editor (Controller_showOrFocus env V)) = contentWidgets (editor V)"
    by simp_all
next
  assume a: "hasModel (editor W) \<and> \<not> standaloneColorPickerVisible W \<and> \<not> standaloneColorPickerFocused W"
  then have m: "hasModel (editor W)" and v: "\<not> standaloneColorPickerVisible W"
    and f: "\<not> standaloneColorPickerFocused W" by simp_all
  let ?W1 = "Controller_showOrFocus env W"
  note c = show_create_fields [OF m v, of env]
  have m1: "hasModel (editor ?W1)"
    using m v by (simp add: Controller_showOrFocus_def Widget_new_def emit_def Let_def)
  have f1: "\<not> standaloneColorPickerFocused ?W1" using f by (simp add: c)
  have second: "Controller_showOrFocus env ?W1 =
      emit [BodyFocus (length (widgets W))] (?W1\<lparr>standaloneColorPickerFocused := True\<rparr>)"
    by (simp add: showOrFocus_focus [OF m1 c(1) f1] c)
  have "standaloneColorPickerVisible ?W1 \<and>
     \<not> standaloneColorPickerFocused ?W1 \<and>
     length (widgets ?W1) = length (widgets W) + 1 \<and>
     standaloneColorPickerWidget ?W1 = Some (length (widgets W)) \<and>
     contentWidgets (editor ?W1) = contentWidgets (editor W) @ [length (widgets W)] \<and>
     standaloneColorPickerVisible (Controller_showOrFocus env ?W1) \<and>
     standaloneColorPickerFocused (Controller_showOrFocus env ?W1) \<and>
     widgets (Controller_showOrFocus env ?W1) = widgets ?W1 \<and>
     standaloneColorPickerWidget (Controller_showOrFocus env ?W1) = Some (length (widgets W)) \<and>
     contentWidgets (editor (Controller_showOrFocus env ?W1))
       = contentWidgets (editor W) @ [length (widgets W)] \<and>
     log (Controller_showOrFocus env ?W1) = log ?W1 @ [BodyFocus (length (widgets W))]"
    unfolding second using f1 by (simp add: c emit_def)
  then show "standaloneColorPickerVisible ?W1"
    and "\<not> standaloneColorPickerFocused ?W1"
    and "length (widgets ?W1) = length (widgets W) + 1"
    and "standaloneColorPickerWidget ?W1 = Some (length (widgets W))"
    and "contentWidgets (editor ?W1) = contentWidgets (editor W) @ [length (widgets W)]"
    and "standaloneColorPickerVisible (Controller_showOrFocus env ?W1)"
    and "standaloneColorPickerFocused (Controller_showOrFocus env ?W1)"
    and "widgets (Controller_showOrFocus env ?W1) = widgets ?W1"
    and "standaloneColorPickerWidget (Controller_showOrFocus env ?W1) = Some (length (widgets W))"
    and "contentWidgets (editor (Controller_showOrFocus env ?W1))
       = contentWidgets (editor W) @ [length (widgets W)]"
    and "log (Controller_showOrFocus env ?W1) = log ?W1 @ [BodyFocus (length (widgets W))]"
    by simp_all
qed

theorem C4_showOrFocus_twice_witness:
  "hasModel (editor (World_init sample_editor)) \<and>
   \<not> standaloneColorPickerVisible (World_init sample_editor) \<and>
   \<not> standaloneColorPickerFocused (World_init sample_editor) \<and>
   standaloneColorPickerVisible shown_world \<and>
   length (widgets shown_world) = 1 \<and>
   standaloneColorPickerFocused (Controller_showOrFocus sample_env shown_world) \<and>
   length (widgets (Controller_showOrFocus sample_env shown_world)) = 1 \<and>
   standaloneColorPickerWidget (Controller_showOrFocus sample_env shown_world) = Some 0 \<and>
   contentWidgets (editor (Controller_showOrFocus sample_env shown_world)) = [0] \<and>
   widgets (Controller_showOrFocus sample_env shown_world) = widgets shown_world"
  using C4_showOrFocus_twice [of "World_init sample_editor" sample_env shown_world]
  by (simp add: shown_world_def World_init_def sample_editor_def)

subsection \<open>C5\<close>

text \<open>
  Claim C5. In a world the events produce, let widget \<open>i\<close> be not disposed and its
  computer's \<^verbatim>\<open>start()\<close> be suspended on a result found in the editor, and let the
  participant render a picker with an insert button. When \<^verbatim>\<open>start()\<close> resumes, the
  button's text is "Replace", the editor's selection is the result's range, and the
  widget is not hidden: the calls made are the emission, the rendering, the selection
  and the layout, the visible key stays set and the widget stays in the editor. The flag
  is clear afterwards exactly when the selection changed, that is when the cursor
  listener ran (and cleared it).
\<close>

theorem C5_found_in_editor_render:
  "live i (run env evs (World_init ed)) \<and>
   w_awaiting (widgets (run env evs (World_init ed)) ! i) = Some (Some x) \<and>
   foundInEditor x \<and> renderHoverParts env (result x) = Some cpw \<and> enterButton cpw = Some b \<longrightarrow>
     colorPickerWidget (widgets (run env (evs @ [Resumed i]) (World_init ed)) ! i)
       = Some (cpw\<lparr>enterButton := Some (b\<lparr>textContent := ''Replace''\<rparr>)\<rparr>) \<and>
     selection (editor (run env (evs @ [Resumed i]) (World_init ed)))
       = Some (ch_range (result x)) \<and>
     log (run env (evs @ [Resumed i]) (World_init ed))
       = log (run env evs (World_init ed))
           @ [Fire \<lparr>r_value = result x, r_foundInMap = True\<rparr>,
              RenderHoverParts i (result x),
              SetSelection (ch_range (result x)),
              LayoutContentWidget i] \<and>
     standaloneColorPickerVisible (run env (evs @ [Resumed i]) (World_init ed)) \<and>
     live i (run env (evs @ [Resumed i]) (World_init ed)) \<and>
     contentWidgets (editor (run env (evs @ [Resumed i]) (World_init ed))) = [i] \<and>
     selectionSetInEditor (widgets (run env (evs @ [Resumed i]) (World_init ed)) ! i)
       = (selection (editor (run env evs (World_init ed))) = Some (ch_range (result x)))"
proof
  let ?W = "run env evs (World_init ed)"
  let ?W1 = "emit [Fire \<lparr>r_value = result x, r_foundInMap = foundInEditor x\<rparr>]
          (update_widget i (\<lambda>w. w\<lparr>w_awaiting := None\<rparr>) ?W)"
  let ?R = "run env (evs @ [Resumed i]) (World_init ed)"
  assume a: "live i ?W \<and> w_awaiting (widgets ?W ! i) = Some (Some x) \<and>
     foundInEditor x \<and> renderHoverParts env (result x) = Some cpw \<and> enterButton cpw = Some b"
  then have l: "live i ?W" and aw: "w_awaiting (widgets ?W ! i) = Some (Some x)"
    and fi: "foundInEditor x" and r: "renderHoverParts env (result x) = Some cpw"
    and b: "enterButton cpw = Some b" by simp_all
  have I: "picker_inv ?W" by (rule inv_run)
  from inv_liveD [OF I l] have v: "standaloneColorPickerVisible ?W"
    and w: "standaloneColorPickerWidget ?W = Some i" by simp_all
  from inv_visibleD [OF I v] w have cw: "contentWidgets (editor ?W) = [i]"
    and cl: "cursorListeners (editor ?W) = [i]" by auto
  from l have i: "i < length (widgets ?W)" and nd: "\<not> w_disposed (widgets ?W ! i)"
    by (simp_all add: live_def)
  have R: "?R = Widget_render env i (result x) True ?W1"
    using resumed_live [OF I l aw, of env] fi by (simp add: run_def)
  have i1: "i < length (widgets ?W1)" using i by (simp add: emit_def update_widget_def)
  have cl1: "cursorListeners (editor ?W1) = [i]" using cl by (simp add: emit_def update_widget_def)
  note f = render_found [OF i1 cl1 r]
  have W1: "log ?W1 = log ?W @ [Fire \<lparr>r_value = result x, r_foundInMap = True\<rparr>]"
    "standaloneColorPickerVisible ?W1 = standaloneColorPickerVisible ?W"
    "contentWidgets (editor ?W1) = contentWidgets (editor ?W)"
    "selection (editor ?W1) = selection (editor ?W)"
    "w_disposed (widgets ?W1 ! i) = w_disposed (widgets ?W ! i)"
    using i fi by (simp_all add: emit_def update_widget_def)
  have rl: "relabel cpw = cpw\<lparr>enterButton := Some (b\<lparr>textContent := ''Replace''\<rparr>)\<rparr>"
    using b by (simp add: relabel_def)
  have lr: "live i ?R" unfolding R using i1 nd by (simp add: live_def f W1)
  show "colorPickerWidget (widgets ?R ! i)
       = Some (cpw\<lparr>enterButton := Some (b\<lparr>textContent := ''Replace''\<rparr>)\<rparr>) \<and>
     selection (editor ?R) = Some (ch_range (result x)) \<and>
     log ?R = log ?W @ [Fire \<lparr>r_value = result x, r_foundInMap = True\<rparr>,
              RenderHoverParts i (result x), SetSelection (ch_range (result x)),
              LayoutContentWidget i] \<and>
     standaloneColorPickerVisible ?R \<and>
     live i ?R \<and>
     contentWidgets (editor ?R) = [i] \<and>
     selectionSetInEditor (widgets ?R ! i) = (selection (editor ?W) = Some (ch_range (result x)))"
    using lr unfolding R by (simp add: f W1 rl v cw)
qed

theorem C5_found_in_editor_render_witness:
  "live 0 (run sample_env [ShowOrFocus] (World_init sample_editor)) \<and>
   w_awaiting (widgets (run sample_env [ShowOrFocus] (World_init sample_editor)) ! 0)
     = Some (Some \<lparr>result = \<lparr>ch_range = sample_range, ch_payload = 7\<rparr>, foundInEditor = True\<rparr>) \<and>
   renderHoverParts sample_env \<lparr>ch_range = sample_range, ch_payload = 7\<rparr> = Some sample_picker \<and>
   enterButton sample_picker = Some \<lparr>textContent = ''Insert''\<rparr> \<and>
   colorPickerWidget (widgets (run sample_env ([ShowOrFocus] @ [Resumed 0]) (World_init sample_editor)) ! 0)
     = Some \<lparr>enterButton = Some \<lparr>textContent = ''Replace''\<rparr>, closeButton = True\<rparr> \<and>
   selection (editor (run sample_env ([ShowOrFocus] @ [Resumed 0]) (World_init sample_editor)))
     = Some sample_range \<and>
   standaloneColorPickerVisible (run sample_env ([ShowOrFocus] @ [Resumed 0]) (World_init sample_editor)) \<and>
   \<not> selectionSetInEditor (widgets (run sample_env ([ShowOrFocus] @ [Resumed 0]) (World_init sample_editor)) ! 0)"
proof -
  let ?W = "run sample_env [ShowOrFocus] (World_init sample_editor)"
  let ?d = "\<lparr>ch_range = sample_range, ch_payload = 7\<rparr>"
  let ?x = "\<lparr>result = ?d, foundInEditor = True\<rparr>"
  note t = C5_found_in_editor_render [of 0 sample_env "[ShowOrFocus]" sample_editor ?x sample_picker
      "\<lparr>textContent = ''Insert''\<rparr>"]
  have l: "live 0 ?W" by (simp add: model_defs sample_defs)
  have aw: "w_awaiting (widgets ?W ! 0) = Some (Some ?x)" by (simp add: model_defs sample_defs)
  have r: "renderHoverParts sample_env ?d = Some sample_picker" by (simp add: sample_env_def)
  have b: "enterButton sample_picker = Some \<lparr>textContent = ''Insert''\<rparr>"
    by (simp add: sample_picker_def)
  have s: "selection (editor ?W) \<noteq> Some sample_range"
    by (simp add: model_defs sample_defs)
  have p: "sample_picker\<lparr>enterButton := Some (\<lparr>textContent = ''Insert''\<rparr>\<lparr>textContent := ''Replace''\<rparr>)\<rparr>
      = \<lparr>enterButton = Some \<lparr>textContent = ''Replace''\<rparr>, closeButton = True\<rparr>"
    by (simp add: sample_picker_def)
  from t l aw r b s p show ?thesis by simp
qed

subsection \<open>C6\<close>

text \<open>
  Claim C6. After any sequence of events from the initial world: the editor holds at most
  one widget and at most one widget is not disposed; if the visible key is set, the
  controller refers to a widget, which is not disposed and is the one the editor holds;
  if the focused key is set, the visible key is set.
\<close>

theorem C6_controller_invariant:
  "length (contentWidgets (editor (run env evs (World_init ed)))) \<le> 1 \<and>
   (\<forall>i j. live i (run env evs (World_init ed)) \<and> live j (run env evs (World_init ed)) \<longrightarrow> i = j) \<and>
   (standaloneColorPickerVisible (run env evs (World_init ed)) \<longrightarrow>
      (\<exists>i. standaloneColorPickerWidget (run env evs (World_init ed)) = Some i \<and>
           live i (run env evs (World_init ed)) \<and>
           contentWidgets (editor (run env evs (World_init ed))) = [i])) \<and>
   (standaloneColorPickerFocused (run env evs (World_init ed)) \<longrightarrow>
      standaloneColorPickerVisible (run env evs (World_init ed)))"
proof -
  let ?W = "run env evs (World_init ed)"
  have I: "picker_inv ?W" by (rule inv_run)
  have a: "length (contentWidgets (editor ?W)) \<le> 1"
    using inv_visibleD [OF I] inv_hiddenD [OF I]
    by (cases "standaloneColorPickerVisible ?W") auto
  have b: "\<forall>i j. live i ?W \<and> live j ?W \<longrightarrow> i = j"
  proof (intro allI impI)
    fix i j assume "live i ?W \<and> live j ?W"
    then have "standaloneColorPickerWidget ?W = Some i" "standaloneColorPickerWidget ?W = Some j"
      using inv_liveD [OF I] by simp_all
    then show "i = j" by simp
  qed
  have c: "standaloneColorPickerVisible ?W \<longrightarrow>
      (\<exists>i. standaloneColorPickerWidget ?W = Some i \<and> live i ?W \<and> contentWidgets (editor ?W) = [i])"
    using inv_visibleD [OF I] by blast
  have d: "standaloneColorPickerFocused ?W \<longrightarrow> standaloneColorPickerVisible ?W"
    using I by (simp add: picker_inv_def)
  from a b c d show ?thesis by blast
qed

theorem C6_controller_invariant_witness:
  "standaloneColorPickerVisible
     (run sample_env [ShowOrFocus, Resumed 0, ShowOrFocus] (World_init sample_editor)) \<and>
   standaloneColorPickerFocused
     (run sample_env [ShowOrFocus, Resumed 0, ShowOrFocus] (World_init sample_editor)) \<and>
   standaloneColorPickerWidget
     (run sample_env [ShowOrFocus, Resumed 0, ShowOrFocus] (World_init sample_editor)) = Some 0 \<and>
   live 0 (run sample_env [ShowOrFocus, Resumed 0, ShowOrFocus] (World_init sample_editor)) \<and>
   contentWidgets (editor
     (run sample_env [ShowOrFocus, Resumed 0, ShowOrFocus] (World_init sample_editor))) = [0]"
  using C6_controller_invariant [of sample_env "[ShowOrFocus, Resumed 0, ShowOrFocus]" sample_editor]
  by (simp add: model_defs sample_defs)

subsection \<open>C7\<close>

text \<open>
  Claim C7. In a world the events produce, \<^verbatim>\<open>updateEditor()\<close> of a widget that has
  received no result changes nothing, and of a widget that has received one it makes one
  call of the participant's \<^verbatim>\<open>updateEditorModel\<close>, with the result received last: the
  call is made if and only if a result has been received.
\<close>

theorem C7_updateEditor_iff_result:
  "i < length (widgets (run env evs (World_init ed))) \<longrightarrow>
     (received i (run env evs (World_init ed)) = [] \<longrightarrow>
        Widget_updateEditor i (run env evs (World_init ed)) = run env evs (World_init ed)) \<and>
     (received i (run env evs (World_init ed)) \<noteq> [] \<longrightarrow>
        Widget_updateEditor i (run env evs (World_init ed))
          = emit [UpdateEditorModel [last (received i (run env evs (World_init ed)))]]
              (run env evs (World_init ed))) \<and>
     (log (Widget_updateEditor i (run env evs (World_init ed))) \<noteq> log (run env evs (World_init ed))
        \<longleftrightarrow> received i (run env evs (World_init ed)) \<noteq> [])"
proof
  let ?W = "run env evs (World_init ed)"
  assume i: "i < length (widgets ?W)"
  have D: "data_inv ?W" by (rule data_inv_run)
  from D i have c: "colorHoverData (widgets ?W ! i)
      = (if received i ?W = [] then None else Some (last (received i ?W)))"
    by (simp add: data_inv_def)
  show "(received i ?W = [] \<longrightarrow> Widget_updateEditor i ?W = ?W) \<and>
     (received i ?W \<noteq> [] \<longrightarrow>
        Widget_updateEditor i ?W = emit [UpdateEditorModel [last (received i ?W)]] ?W) \<and>
     (log (Widget_updateEditor i ?W) \<noteq> log ?W \<longleftrightarrow> received i ?W \<noteq> [])"
    using i c by (simp add: Widget_updateEditor_def emit_def)
qed

theorem C7_updateEditor_iff_result_witness:
  "0 < length (widgets (run sample_env [ShowOrFocus] (World_init sample_editor))) \<and>
   received 0 (run sample_env [ShowOrFocus] (World_init sample_editor)) = [] \<and>
   Widget_updateEditor 0 (run sample_env [ShowOrFocus] (World_init sample_editor))
     = run sample_env [ShowOrFocus] (World_init sample_editor) \<and>
   0 < length (widgets (run sample_env [ShowOrFocus, Resumed 0] (World_init sample_editor))) \<and>
   received 0 (run sample_env [ShowOrFocus, Resumed 0] (World_init sample_editor))
     = [\<lparr>ch_range = sample_range, ch_payload = 7\<rparr>] \<and>
   log (Widget_updateEditor 0 (run sample_env [ShowOrFocus, Resumed 0] (World_init sample_editor)))
     = log (run sample_env [ShowOrFocus, Resumed 0] (World_init sample_editor))
         @ [UpdateEditorModel [\<lparr>ch_range = sample_range, ch_payload = 7\<rparr>]]"
proof -
  let ?A = "run sample_env [ShowOrFocus] (World_init sample_editor)"
  let ?B = "run sample_env [ShowOrFocus, Resumed 0] (World_init sample_editor)"
  note a = C7_updateEditor_iff_result [of 0 sample_env "[ShowOrFocus]" sample_editor]
  note b = C7_updateEditor_iff_result [of 0 sample_env "[ShowOrFocus, Resumed 0]" sample_editor]
  have la: "0 < length (widgets ?A)" by (simp add: model_defs sample_defs)
  have lb: "0 < length (widgets ?B)" by (simp add: model_defs sample_defs)
  have ra: "received 0 ?A = []"
    by (simp add: received_def map_filter_def model_defs sample_defs)
  have rb: "received 0 ?B = [\<lparr>ch_range = sample_range, ch_payload = 7\<rparr>]"
    by (simp add: received_def map_filter_def model_defs sample_defs)
  from a la ra have ua: "Widget_updateEditor 0 ?A = ?A" by simp
  from b lb rb have "Widget_updateEditor 0 ?B
      = emit [UpdateEditorModel [\<lparr>ch_range = sample_range, ch_payload = 7\<rparr>]] ?B" by simp
  then have ub: "log (Widget_updateEditor 0 ?B)
      = log ?B @ [UpdateEditorModel [\<lparr>ch_range = sample_range, ch_payload = 7\<rparr>]]"
    by (simp add: emit_def)
  from la ra ua lb rb ub show ?thesis by blast
qed

subsection \<open>C8\<close>

text \<open>
  Claim C8. In every world \<^verbatim>\<open>hide()\<close> of the controller leaves both keys false. With
  no widget it changes nothing else but to give the focus to the editor. With a widget
  it calls the widget's \<^verbatim>\<open>hide\<close> (the widget leaves the editor and is disposed) and
  then gives the focus to the editor.
\<close>

theorem C8_hide_clears_flags:
  "\<not> standaloneColorPickerVisible (Controller_hide W) \<and>
   \<not> standaloneColorPickerFocused (Controller_hide W) \<and>
   (standaloneColorPickerWidget W = None \<longrightarrow>
      Controller_hide W =
        W\<lparr>standaloneColorPickerFocused := False, standaloneColorPickerVisible := False,
          log := log W @ [EditorFocus]\<rparr>) \<and>
   (standaloneColorPickerWidget W = Some i \<longrightarrow>
      log (Controller_hide W) = log W @ [RemoveContentWidget i, EditorFocus, EditorFocus] \<and>
      i \<notin> set (contentWidgets (editor (Controller_hide W))) \<and>
      i \<notin> set (cursorListeners (editor (Controller_hide W))) \<and>
      \<not> live i (Controller_hide W))"
proof -
  have flags: "\<not> standaloneColorPickerVisible (Controller_hide W) \<and>
      \<not> standaloneColorPickerFocused (Controller_hide W)"
    by (simp add: Controller_hide_def emit_def Widget_hide_fields Let_def split: option.splits)
  have none: "standaloneColorPickerWidget W = None \<longrightarrow>
      Controller_hide W =
        W\<lparr>standaloneColorPickerFocused := False, standaloneColorPickerVisible := False,
          log := log W @ [EditorFocus]\<rparr>"
    by (simp add: Controller_hide_def emit_def Let_def)
  have some: "standaloneColorPickerWidget W = Some i \<longrightarrow>
      log (Controller_hide W) = log W @ [RemoveContentWidget i, EditorFocus, EditorFocus] \<and>
      i \<notin> set (contentWidgets (editor (Controller_hide W))) \<and>
      i \<notin> set (cursorListeners (editor (Controller_hide W))) \<and>
      \<not> live i (Controller_hide W)"
  proof
    assume s: "standaloneColorPickerWidget W = Some i"
    then have eq: "Controller_hide W = emit [EditorFocus] (Widget_hide i W)"
      by (simp add: Controller_hide_def Widget_hide_flags Let_def)
    show "log (Controller_hide W) = log W @ [RemoveContentWidget i, EditorFocus, EditorFocus] \<and>
      i \<notin> set (contentWidgets (editor (Controller_hide W))) \<and>
      i \<notin> set (cursorListeners (editor (Controller_hide W))) \<and>
      \<not> live i (Controller_hide W)"
      unfolding eq live_emit by (simp add: emit_def Widget_hide_fields live_Widget_hide)
  qed
  from flags none some show ?thesis by blast
qed

theorem C8_hide_clears_flags_witness:
  "standaloneColorPickerWidget shown_world = Some 0 \<and>
   standaloneColorPickerVisible shown_world \<and>
   \<not> standaloneColorPickerVisible (Controller_hide shown_world) \<and>
   \<not> standaloneColorPickerFocused (Controller_hide shown_world) \<and>
   log (Controller_hide shown_world)
     = log shown_world @ [RemoveContentWidget 0, EditorFocus, EditorFocus] \<and>
   standaloneColorPickerWidget (World_init empty_editor) = None \<and>
   log (Controller_hide (World_init empty_editor)) = [EditorFocus]"
  using C8_hide_clears_flags [of shown_world 0] C8_hide_clears_flags [of "World_init empty_editor" 0]
  by (simp add: shown_world_def model_defs sample_defs)

subsection \<open>C9\<close>

text \<open>
  Claim C9. \<^verbatim>\<open>getPosition()\<close> is null exactly when the widget has no position; with a
  position it anchors both positions there, prefers above then below when the editor's
  hover-above option is set and below then above otherwise, with no affinity. The
  position is the view cursor the constructor read.
\<close>

theorem C9_getPosition:
  "(Widget_getPosition ed w = None \<longleftrightarrow> w_position w = None) \<and>
   (w_position w = Some p \<longrightarrow>
      Widget_getPosition ed w =
        Some \<lparr>position = p, secondaryPosition = p,
              preference = (if hoverAbove ed then [ABOVE, BELOW] else [BELOW, ABOVE]),
              positionAffinity = AffinityNone\<rparr>) \<and>
   w_position (widgets (Widget_new env W) ! length (widgets W)) = viewCursor (editor W)"
  by (simp add: Widget_getPosition_def Widget_new_def Let_def split: option.splits)

theorem C9_getPosition_witness:
  "w_position (widgets (Widget_new sample_env (World_init sample_editor)) ! 0)
     = Some \<lparr>lineNumber = 1, column = 5\<rparr> \<and>
   Widget_getPosition sample_editor (widgets (Widget_new sample_env (World_init sample_editor)) ! 0)
     = Some \<lparr>position = \<lparr>lineNumber = 1, column = 5\<rparr>,
             secondaryPosition = \<lparr>lineNumber = 1, column = 5\<rparr>,
             preference = [ABOVE, BELOW], positionAffinity = AffinityNone\<rparr> \<and>
   Widget_getPosition empty_editor (widgets (Widget_new sample_env (World_init empty_editor)) ! 0)
     = None"
  using C9_getPosition [of sample_editor "widgets (Widget_new sample_env (World_init sample_editor)) ! 0"
          "\<lparr>lineNumber = 1, column = 5\<rparr>" sample_env "World_init sample_editor"]
    C9_getPosition [of empty_editor "widgets (Widget_new sample_env (World_init empty_editor)) ! 0"
          "\<lparr>lineNumber = 1, column = 5\<rparr>" sample_env "World_init empty_editor"]
  by (simp add: sample_defs World_init_def)

subsection \<open>C10\<close>

text \<open>
  Claim C10. The computer a widget constructs has a range that is not null: the
  coordinates of the selection, or the zero range when there is no selection. So its
  \<^verbatim>\<open>start()\<close> passes the null test and suspends at the lookup, and in every world the
  events produce every widget's computer has the snapshot of its widget's selection as
  range.
\<close>

theorem C10_widget_range_not_null:
  "c_range (Widget_computer i ed) = Some (selection_snapshot (selection ed)) \<and>
   (selection ed = None \<longrightarrow> c_range (Widget_computer i ed) = Some zero_range) \<and>
   (selection ed = Some s \<longrightarrow>
      c_range (Widget_computer i ed) =
        Some \<lparr>startLineNumber = startLineNumber s, startColumn = startColumn s,
              endLineNumber = endLineNumber s, endColumn = endColumn s\<rparr>) \<and>
   snd (start_await env ed (Widget_computer i ed)) \<noteq> None \<and>
   w_computer (widgets (Widget_new env W) ! length (widgets W))
     = Widget_computer (length (widgets W)) (editor W) \<and>
   (\<forall>j < length (widgets (run env evs (World_init ed0))).
      c_range (w_computer (widgets (run env evs (World_init ed0)) ! j)) \<noteq> None \<and>
      c_range (w_computer (widgets (run env evs (World_init ed0)) ! j))
        = Some (selection_snapshot (w_selection (widgets (run env evs (World_init ed0)) ! j))))"
proof -
  have a: "c_range (Widget_computer i ed) = Some (selection_snapshot (selection ed))"
    by (simp add: Widget_computer_fields)
  have b: "selection ed = None \<longrightarrow> c_range (Widget_computer i ed) = Some zero_range"
    by (simp add: Widget_computer_fields selection_snapshot_def zero_range_def)
  have c: "selection ed = Some s \<longrightarrow>
      c_range (Widget_computer i ed) =
        Some \<lparr>startLineNumber = startLineNumber s, startColumn = startColumn s,
              endLineNumber = endLineNumber s, endColumn = endColumn s\<rparr>"
    by (simp add: Widget_computer_fields selection_snapshot_def)
  have d: "snd (start_await env ed (Widget_computer i ed)) \<noteq> None"
    by (simp add: start_await_def Widget_computer_fields)
  have e: "w_computer (widgets (Widget_new env W) ! length (widgets W))
     = Widget_computer (length (widgets W)) (editor W)"
    by (simp add: Widget_new_def Let_def)
  have f: "\<forall>j < length (widgets (run env evs (World_init ed0))).
      c_range (w_computer (widgets (run env evs (World_init ed0)) ! j)) \<noteq> None \<and>
      c_range (w_computer (widgets (run env evs (World_init ed0)) ! j))
        = Some (selection_snapshot (w_selection (widgets (run env evs (World_init ed0)) ! j)))"
    using inv_run [of env evs ed0] by (simp add: picker_inv_def)
  from a b c d e f show ?thesis by blast
qed

theorem C10_widget_range_not_null_witness:
  "selection empty_editor = None \<and>
   c_range (Widget_computer 0 empty_editor) = Some zero_range \<and>
   selection sample_editor
     = Some \<lparr>startLineNumber = 1, startColumn = 5, endLineNumber = 1, endColumn = 5\<rparr> \<and>
   c_range (Widget_computer 0 sample_editor)
     = Some \<lparr>startLineNumber = 1, startColumn = 5, endLineNumber = 1, endColumn = 5\<rparr> \<and>
   0 < length (widgets (run sample_env [ShowOrFocus] (World_init sample_editor))) \<and>
   c_range (w_computer (widgets (run sample_env [ShowOrFocus] (World_init sample_editor)) ! 0))
     \<noteq> None"
proof -
  let ?W = "run sample_env [ShowOrFocus] (World_init sample_editor)"
  let ?s = "\<lparr>startLineNumber = 1, startColumn = 5, endLineNumber = 1, endColumn = 5\<rparr>"
  note t1 = C10_widget_range_not_null [of 0 empty_editor ?s sample_env "World_init sample_editor" "[ShowOrFocus]" sample_editor]
  note t2 = C10_widget_range_not_null [of 0 sample_editor ?s sample_env "World_init sample_editor" "[ShowOrFocus]" sample_editor]
  have e: "selection empty_editor = None" by (simp add: empty_editor_def)
  have f: "selection sample_editor = Some ?s" by (simp add: sample_editor_def)
  have a: "c_range (Widget_computer 0 empty_editor) = Some zero_range"
    using t1 e by blast
  have b: "c_range (Widget_computer 0 sample_editor) = Some ?s"
    using t2 f by (simp add: selection_snapshot_def)
  have c: "0 < length (widgets ?W)"
    by (simp add: model_defs sample_defs)
  have d: "c_range (w_computer (widgets ?W ! 0)) \<noteq> None"
    using t2 c by blast
  from a b c d e f show ?thesis by blast
qed

end
